theory Spec2Isabelle
  imports Main "HOL-Library.Word" "HOL-Library.Monad_Syntax"
begin

unbundle bit_operations_syntax

section \<open>Machine types and the process-wide tunables\<close>

text \<open>
  The two benchmark programs (\<^verbatim>\<open>simd-copy.cpp\<close> and \<^verbatim>\<open>simd-mult.cpp\<close>) are built for
  x86-64: \<^verbatim>\<open>std::size_t\<close> and pointers are 64-bit unsigned machine words whose arithmetic
  wraps, \<^verbatim>\<open>int\<close> is a 32-bit signed integer whose overflow is undefined behaviour, and a
  \<^verbatim>\<open>float\<close> is the 32-bit pattern of an IEEE binary32 value stored in four consecutive
  bytes, least significant byte first.
\<close>

type_synonym size_t = "64 word"
type_synonym byte = "8 word"
type_synonym float = "32 word"
type_synonym mem = "size_t \<Rightarrow> byte"

definition INT_MAX :: nat where
  "INT_MAX = 2147483647"

text \<open>The globals \<^verbatim>\<open>gNumFloats\<close>, \<^verbatim>\<open>gTotalFloats\<close>, \<^verbatim>\<open>gCheckValue\<close>, \<^verbatim>\<open>gHasAvx\<close>, \<^verbatim>\<open>gHtmlOut\<close>.\<close>

record globals =
  gNumFloats :: size_t
  gTotalFloats :: size_t
  gCheckValue :: float
  gHasAvx :: bool
  gHtmlOut :: bool

definition kDefaultNumFloats :: size_t where
  "kDefaultNumFloats = 16 * 1024"

definition kDefaultTotalFloats :: size_t where
  "kDefaultTotalFloats = 65636 * kDefaultNumFloats"

text \<open>The initial values of the globals; \<open>0x3F800000\<close> is the pattern of \<^verbatim>\<open>1.f\<close>.\<close>

definition default_globals :: globals where
  "default_globals = \<lparr> gNumFloats = kDefaultNumFloats, gTotalFloats = kDefaultTotalFloats,
     gCheckValue = 0x3F800000, gHasAvx = True, gHtmlOut = True \<rparr>"

text \<open>
  What stops a run: \<^verbatim>\<open>std::exit\<close> or the return of \<^verbatim>\<open>main\<close> with an exit code, the
  overflow of an \<^verbatim>\<open>int\<close> loop counter, or the general-protection fault of an aligned
  vector access at an address that is not a multiple of the vector size.
\<close>

datatype abort = Exit nat | SignedOverflow | GeneralProtection

section \<open>The alignment utility\<close>

text \<open>
  \<^verbatim>\<open>
  template<typename T> T* align(T* p, std::size_t aligned_to) {
      std::size_t address = reinterpret_cast<std::size_t>(p);
      while(address % 256 != aligned_to) ++address;
      return reinterpret_cast<T*>(address);
  }
  \<close>
  The loop has no bound of its own, so it is a partial function: \<open>None\<close> is the loop
  that never ends.
\<close>

partial_function (option) align_loop :: "size_t \<Rightarrow> size_t \<Rightarrow> size_t option" where
  "align_loop address aligned_to =
     (if address mod 256 \<noteq> aligned_to then align_loop (address + 1) aligned_to
      else Some address)"

definition align :: "size_t \<Rightarrow> size_t \<Rightarrow> size_t option" where
  "align p aligned_to = align_loop p aligned_to"

text \<open>The number of increments the loop of \<open>align\<close> makes when the offset is below 256.\<close>

definition align_steps :: "size_t \<Rightarrow> size_t \<Rightarrow> nat" where
  "align_steps p k = (unat k + 256 - unat p mod 256) mod 256"

section \<open>Memory: floats in a byte-addressed store\<close>

text \<open>
  Byte \<open>k\<close> of a float, the float made of four bytes, the load of the float whose first
  byte is at \<open>p\<close>, and the store, which replaces the bytes at \<open>p, p + 1, p + 2, p + 3\<close>
  (the addresses \<open>x\<close> with \<open>x - p < 4\<close> in the wrapping arithmetic of addresses) and no
  other.
\<close>

definition float_byte :: "float \<Rightarrow> nat \<Rightarrow> byte" where
  "float_byte v k = ucast (drop_bit (8 * k) v)"

definition bytes_float :: "byte \<Rightarrow> byte \<Rightarrow> byte \<Rightarrow> byte \<Rightarrow> float" where
  "bytes_float b0 b1 b2 b3 =
     ucast b0 OR push_bit 8 (ucast b1) OR push_bit 16 (ucast b2) OR push_bit 24 (ucast b3)"

definition load_float :: "mem \<Rightarrow> size_t \<Rightarrow> float" where
  "load_float m p = bytes_float (m p) (m (p + 1)) (m (p + 2)) (m (p + 3))"

definition store_float :: "mem \<Rightarrow> size_t \<Rightarrow> float \<Rightarrow> mem" where
  "store_float m p v = (\<lambda>x. if x - p < 4 then float_byte v (unat (x - p)) else m x)"

text \<open>Element \<open>i\<close> of the float array at \<open>p\<close>: the address \<^verbatim>\<open>&p[i]\<close> and the value \<^verbatim>\<open>p[i]\<close>.\<close>

definition elem_addr :: "size_t \<Rightarrow> nat \<Rightarrow> size_t" where
  "elem_addr p i = p + 4 * of_nat i"

definition elem :: "mem \<Rightarrow> size_t \<Rightarrow> nat \<Rightarrow> float" where
  "elem m p i = load_float m (elem_addr p i)"

text \<open>
  The comparison \<^verbatim>\<open>x != y\<close> of two floats (IEEE 754): a NaN differs from everything,
  itself included, and the two zeros are equal.
\<close>

definition is_nan :: "float \<Rightarrow> bool" where
  "is_nan x = (x AND 0x7F800000 = 0x7F800000 \<and> x AND 0x007FFFFF \<noteq> 0)"

definition float_ne :: "float \<Rightarrow> float \<Rightarrow> bool" where
  "float_ne x y =
     (is_nan x \<or> is_nan y \<or> (x \<noteq> y \<and> \<not> (x AND 0x7FFFFFFF = 0 \<and> y AND 0x7FFFFFFF = 0)))"

text \<open>
  A vector register is the list of its lanes, lowest address first. \<open>load_lanes\<close> and
  \<open>store_lanes\<close> move \<open>w\<close> consecutive floats between memory and a register.
\<close>

fun load_lanes :: "nat \<Rightarrow> mem \<Rightarrow> size_t \<Rightarrow> float list" where
  "load_lanes 0 m p = []"
| "load_lanes (Suc w) m p = load_float m p # load_lanes w m (p + 4)"

fun store_lanes :: "mem \<Rightarrow> size_t \<Rightarrow> float list \<Rightarrow> mem" where
  "store_lanes m p [] = m"
| "store_lanes m p (x # xs) = store_lanes (store_float m p x) (p + 4) xs"

text \<open>
  The SSE and AVX intrinsics. The unaligned forms accept any address; the aligned and the
  non-temporal forms fault unless the address is a multiple of 16 (SSE) or 32 (AVX). A
  non-temporal store leaves the same bytes in memory as an ordinary one. Multiplication is
  lane-wise; the product of two floats is the parameter \<open>fmul\<close>.
\<close>

definition mm_loadu_ps :: "mem \<Rightarrow> size_t \<Rightarrow> abort + float list" where
  "mm_loadu_ps m p = Inr (load_lanes 4 m p)"

definition mm_storeu_ps :: "mem \<Rightarrow> size_t \<Rightarrow> float list \<Rightarrow> abort + mem" where
  "mm_storeu_ps m p v = Inr (store_lanes m p v)"

definition mm_load_ps :: "mem \<Rightarrow> size_t \<Rightarrow> abort + float list" where
  "mm_load_ps m p = (if p mod 16 = 0 then Inr (load_lanes 4 m p) else Inl GeneralProtection)"

definition mm_store_ps :: "mem \<Rightarrow> size_t \<Rightarrow> float list \<Rightarrow> abort + mem" where
  "mm_store_ps m p v = (if p mod 16 = 0 then Inr (store_lanes m p v) else Inl GeneralProtection)"

definition mm_stream_ps :: "mem \<Rightarrow> size_t \<Rightarrow> float list \<Rightarrow> abort + mem" where
  "mm_stream_ps m p v = (if p mod 16 = 0 then Inr (store_lanes m p v) else Inl GeneralProtection)"

definition mm256_loadu_ps :: "mem \<Rightarrow> size_t \<Rightarrow> abort + float list" where
  "mm256_loadu_ps m p = Inr (load_lanes 8 m p)"

definition mm256_storeu_ps :: "mem \<Rightarrow> size_t \<Rightarrow> float list \<Rightarrow> abort + mem" where
  "mm256_storeu_ps m p v = Inr (store_lanes m p v)"

definition mm256_load_ps :: "mem \<Rightarrow> size_t \<Rightarrow> abort + float list" where
  "mm256_load_ps m p = (if p mod 32 = 0 then Inr (load_lanes 8 m p) else Inl GeneralProtection)"

definition mm256_store_ps :: "mem \<Rightarrow> size_t \<Rightarrow> float list \<Rightarrow> abort + mem" where
  "mm256_store_ps m p v = (if p mod 32 = 0 then Inr (store_lanes m p v) else Inl GeneralProtection)"

definition mm256_stream_ps :: "mem \<Rightarrow> size_t \<Rightarrow> float list \<Rightarrow> abort + mem" where
  "mm256_stream_ps m p v = (if p mod 32 = 0 then Inr (store_lanes m p v) else Inl GeneralProtection)"

definition mm_mul_ps :: "(float \<Rightarrow> float \<Rightarrow> float) \<Rightarrow> float list \<Rightarrow> float list \<Rightarrow> float list" where
  "mm_mul_ps fmul v1 v2 = map2 fmul v1 v2"

text \<open>Sequencing of steps that may stop.\<close>

definition and_then :: "abort + 'a \<Rightarrow> ('a \<Rightarrow> abort + 'b) \<Rightarrow> abort + 'b" where
  "and_then r k = (case r of Inl e \<Rightarrow> Inl e | Inr x \<Rightarrow> k x)"

text \<open>
  The library routines \<^verbatim>\<open>std::fill(first, first + n, v)\<close>, \<^verbatim>\<open>std::copy(first, first + n, result)\<close>
  on float ranges, element by element from the front, and \<^verbatim>\<open>std::memcpy(d, s, len)\<close>,
  which gives each of the \<open>len\<close> bytes from \<open>d\<close> on the value the byte at the same offset
  from \<open>s\<close> had before the call.
\<close>

fun std_fill :: "mem \<Rightarrow> size_t \<Rightarrow> nat \<Rightarrow> float \<Rightarrow> mem" where
  "std_fill m first 0 v = m"
| "std_fill m first (Suc n) v = std_fill (store_float m first v) (first + 4) n v"

fun std_copy :: "mem \<Rightarrow> size_t \<Rightarrow> nat \<Rightarrow> size_t \<Rightarrow> mem" where
  "std_copy m first 0 result = m"
| "std_copy m first (Suc n) result =
     std_copy (store_float m result (load_float m first)) (first + 4) n (result + 4)"

definition memcpy :: "mem \<Rightarrow> size_t \<Rightarrow> size_t \<Rightarrow> size_t \<Rightarrow> mem" where
  "memcpy m d s len = (\<lambda>x. if x - d < len then m (s + (x - d)) else m x)"

section \<open>The operations\<close>

text \<open>
  Every vector and scalar variant is a loop \<^verbatim>\<open>for(int i = 0; i < gNumFloats; i += step)\<close>.
  The counter is an \<^verbatim>\<open>int\<close> that starts at 0 and only grows, so its conversion to
  \<^verbatim>\<open>std::size_t\<close> in the comparison is its value; the increment is undefined once it
  would pass \<open>INT_MAX\<close>. The steps in the source are the literals 1, 4 and 8.
\<close>

function for_int :: "nat \<Rightarrow> nat \<Rightarrow> (nat \<Rightarrow> 's \<Rightarrow> abort + 's) \<Rightarrow> nat \<Rightarrow> 's \<Rightarrow> abort + 's" where
  "for_int step n body i s =
     (if 0 < step \<and> i < n then
        (case body i s of
           Inl e \<Rightarrow> Inl e
         | Inr s' \<Rightarrow> if INT_MAX < i + step then Inl SignedOverflow
                     else for_int step n body (i + step) s')
      else Inr s)"
  by pat_completeness auto
termination
  by (relation "measure (\<lambda>(step, n, body, i, s). n - i)") auto

declare for_int.simps [simp del]

subsection \<open>Copy (\<^verbatim>\<open>simd-copy.cpp\<close>)\<close>

definition MemCopy :: "size_t \<Rightarrow> size_t \<Rightarrow> size_t \<Rightarrow> mem \<Rightarrow> abort + mem" where
  "MemCopy n d s m = Inr (memcpy m d s (n * 4))"

definition StdCopy :: "size_t \<Rightarrow> size_t \<Rightarrow> size_t \<Rightarrow> mem \<Rightarrow> abort + mem" where
  "StdCopy n d s m = Inr (std_copy m s (unat n) d)"

text \<open>\<^verbatim>\<open>*d++ = *s++\<close>: the loop state is the memory and the two moving pointers.\<close>

definition SimpleCopy :: "size_t \<Rightarrow> size_t \<Rightarrow> size_t \<Rightarrow> mem \<Rightarrow> abort + mem" where
  "SimpleCopy n d s m =
     and_then
       (for_int 1 (unat n)
          (\<lambda>i (m, d, s). Inr (store_float m d (load_float m s), d + 4, s + 4)) 0 (m, d, s))
       (\<lambda>(m, d, s). Inr m)"

definition UnalignedSseCopy :: "size_t \<Rightarrow> size_t \<Rightarrow> size_t \<Rightarrow> mem \<Rightarrow> abort + mem" where
  "UnalignedSseCopy n d s m =
     for_int 4 (unat n)
       (\<lambda>i m. and_then (mm_loadu_ps m (elem_addr s i)) (\<lambda>v. mm_storeu_ps m (elem_addr d i) v)) 0 m"

definition AlignedSseCopy :: "size_t \<Rightarrow> size_t \<Rightarrow> size_t \<Rightarrow> mem \<Rightarrow> abort + mem" where
  "AlignedSseCopy n d s m =
     for_int 4 (unat n)
       (\<lambda>i m. and_then (mm_load_ps m (elem_addr s i)) (\<lambda>v. mm_store_ps m (elem_addr d i) v)) 0 m"

definition AlignedSseNonTemporalCopy :: "size_t \<Rightarrow> size_t \<Rightarrow> size_t \<Rightarrow> mem \<Rightarrow> abort + mem" where
  "AlignedSseNonTemporalCopy n d s m =
     for_int 4 (unat n)
       (\<lambda>i m. and_then (mm_load_ps m (elem_addr s i)) (\<lambda>v. mm_stream_ps m (elem_addr d i) v)) 0 m"

definition UnalignedAvxCopy :: "size_t \<Rightarrow> size_t \<Rightarrow> size_t \<Rightarrow> mem \<Rightarrow> abort + mem" where
  "UnalignedAvxCopy n d s m =
     for_int 8 (unat n)
       (\<lambda>i m. and_then (mm256_loadu_ps m (elem_addr s i)) (\<lambda>v. mm256_storeu_ps m (elem_addr d i) v)) 0 m"

definition AlignedAvxCopy :: "size_t \<Rightarrow> size_t \<Rightarrow> size_t \<Rightarrow> mem \<Rightarrow> abort + mem" where
  "AlignedAvxCopy n d s m =
     for_int 8 (unat n)
       (\<lambda>i m. and_then (mm256_load_ps m (elem_addr s i)) (\<lambda>v. mm256_store_ps m (elem_addr d i) v)) 0 m"

definition AlignedAvxNonTemporalCopy :: "size_t \<Rightarrow> size_t \<Rightarrow> size_t \<Rightarrow> mem \<Rightarrow> abort + mem" where
  "AlignedAvxNonTemporalCopy n d s m =
     for_int 8 (unat n)
       (\<lambda>i m. and_then (mm256_load_ps m (elem_addr s i)) (\<lambda>v. mm256_stream_ps m (elem_addr d i) v)) 0 m"

definition NullCopy :: "size_t \<Rightarrow> size_t \<Rightarrow> size_t \<Rightarrow> mem \<Rightarrow> abort + mem" where
  "NullCopy n d s m = Inr m"

subsection \<open>Multiply (\<^verbatim>\<open>simd-mult.cpp\<close>)\<close>

definition NiaveMult ::
  "(float \<Rightarrow> float \<Rightarrow> float) \<Rightarrow> size_t \<Rightarrow> size_t \<Rightarrow> size_t \<Rightarrow> size_t \<Rightarrow> mem \<Rightarrow> abort + mem" where
  "NiaveMult fmul n d a b m =
     and_then
       (for_int 1 (unat n)
          (\<lambda>i (m, d, a, b).
             Inr (store_float m d (fmul (load_float m a) (load_float m b)), d + 4, a + 4, b + 4))
          0 (m, d, a, b))
       (\<lambda>(m, d, a, b). Inr m)"

definition UnalignedSseMult ::
  "(float \<Rightarrow> float \<Rightarrow> float) \<Rightarrow> size_t \<Rightarrow> size_t \<Rightarrow> size_t \<Rightarrow> size_t \<Rightarrow> mem \<Rightarrow> abort + mem" where
  "UnalignedSseMult fmul n d a b m =
     for_int 4 (unat n)
       (\<lambda>i m. and_then (mm_loadu_ps m (elem_addr a i)) (\<lambda>v1.
               and_then (mm_loadu_ps m (elem_addr b i)) (\<lambda>v2.
               mm_storeu_ps m (elem_addr d i) (mm_mul_ps fmul v1 v2)))) 0 m"

definition AlignedSseMult ::
  "(float \<Rightarrow> float \<Rightarrow> float) \<Rightarrow> size_t \<Rightarrow> size_t \<Rightarrow> size_t \<Rightarrow> size_t \<Rightarrow> mem \<Rightarrow> abort + mem" where
  "AlignedSseMult fmul n d a b m =
     for_int 4 (unat n)
       (\<lambda>i m. and_then (mm_load_ps m (elem_addr a i)) (\<lambda>v1.
               and_then (mm_load_ps m (elem_addr b i)) (\<lambda>v2.
               mm_store_ps m (elem_addr d i) (mm_mul_ps fmul v1 v2)))) 0 m"

definition AlignedSseNonTemporalMult ::
  "(float \<Rightarrow> float \<Rightarrow> float) \<Rightarrow> size_t \<Rightarrow> size_t \<Rightarrow> size_t \<Rightarrow> size_t \<Rightarrow> mem \<Rightarrow> abort + mem" where
  "AlignedSseNonTemporalMult fmul n d a b m =
     for_int 4 (unat n)
       (\<lambda>i m. and_then (mm_load_ps m (elem_addr a i)) (\<lambda>v1.
               and_then (mm_load_ps m (elem_addr b i)) (\<lambda>v2.
               mm_stream_ps m (elem_addr d i) (mm_mul_ps fmul v1 v2)))) 0 m"

definition UnalignedAvxMult ::
  "(float \<Rightarrow> float \<Rightarrow> float) \<Rightarrow> size_t \<Rightarrow> size_t \<Rightarrow> size_t \<Rightarrow> size_t \<Rightarrow> mem \<Rightarrow> abort + mem" where
  "UnalignedAvxMult fmul n d a b m =
     for_int 8 (unat n)
       (\<lambda>i m. and_then (mm256_loadu_ps m (elem_addr a i)) (\<lambda>v1.
               and_then (mm256_loadu_ps m (elem_addr b i)) (\<lambda>v2.
               mm256_storeu_ps m (elem_addr d i) (mm_mul_ps fmul v1 v2)))) 0 m"

definition AlignedAvxMult ::
  "(float \<Rightarrow> float \<Rightarrow> float) \<Rightarrow> size_t \<Rightarrow> size_t \<Rightarrow> size_t \<Rightarrow> size_t \<Rightarrow> mem \<Rightarrow> abort + mem" where
  "AlignedAvxMult fmul n d a b m =
     for_int 8 (unat n)
       (\<lambda>i m. and_then (mm256_load_ps m (elem_addr a i)) (\<lambda>v1.
               and_then (mm256_load_ps m (elem_addr b i)) (\<lambda>v2.
               mm256_store_ps m (elem_addr d i) (mm_mul_ps fmul v1 v2)))) 0 m"

definition AlignedAvxNonTemporalMult ::
  "(float \<Rightarrow> float \<Rightarrow> float) \<Rightarrow> size_t \<Rightarrow> size_t \<Rightarrow> size_t \<Rightarrow> size_t \<Rightarrow> mem \<Rightarrow> abort + mem" where
  "AlignedAvxNonTemporalMult fmul n d a b m =
     for_int 8 (unat n)
       (\<lambda>i m. and_then (mm256_load_ps m (elem_addr a i)) (\<lambda>v1.
               and_then (mm256_load_ps m (elem_addr b i)) (\<lambda>v2.
               mm256_stream_ps m (elem_addr d i) (mm_mul_ps fmul v1 v2)))) 0 m"


section \<open>The timed-run executor\<close>

text \<open>
  What the programs print. Each constructor stands for one output statement of the source:
  \<^item> \<open>HtmlHead\<close>, \<open>HtmlTail\<close>: the chart markup before and after the table;
  \<^item> \<open>TableHead\<close>: the row of column names; \<open>TableEnd\<close>: \<^verbatim>\<open>std::cout << "]" << std::endl\<close>;
  \<^item> \<open>RowStart a\<close>: \<^verbatim>\<open>std::cout << "],\n" << "[" << alignment\<close>;
  \<^item> \<open>ColumnTime t\<close>: \<^verbatim>\<open>std::cout << "," << time\<close>;
  \<^item> \<open>ColumnZero\<close>: \<^verbatim>\<open>std::cout << "," << 0\<close>;
  \<^item> \<open>ErrMismatch name x y\<close>:
    \<^verbatim>\<open>std::cerr << "Error in " << name << " " << x << " != " << y << std::endl\<close>;
  \<^item> \<open>Took name a t\<close>:
    \<^verbatim>\<open>std::cerr << name << " (" << alignment << ") took " << time << " seconds." << std::endl\<close>;
  \<^item> \<open>ErrTotalFloats\<close>:
    \<^verbatim>\<open>std::cerr << "total-floats must be greater than num-floats" << std::endl\<close>;
  \<^item> \<open>ErrWhat\<close>: \<^verbatim>\<open>std::cerr << e.what() << std::endl\<close>;
  \<^item> \<open>Usage\<close>: the text of \<^verbatim>\<open>print_usage()\<close>.
\<close>

datatype event =
    HtmlHead | HtmlTail | TableHead | TableEnd
  | RowStart size_t | ColumnTime float | ColumnZero
  | ErrMismatch string float float | Took string size_t float
  | ErrTotalFloats | ErrWhat | Usage

record world =
  mem :: mem
  cout :: "event list"
  cerr :: "event list"

datatype outcome = Continue world | Halt abort world

definition print_cout :: "event \<Rightarrow> world \<Rightarrow> world" where
  "print_cout e w = w\<lparr>cout := cout w @ [e]\<rparr>"

definition print_cerr :: "event \<Rightarrow> world \<Rightarrow> world" where
  "print_cerr e w = w\<lparr>cerr := cerr w @ [e]\<rparr>"

definition print_usage :: "world \<Rightarrow> world" where
  "print_usage w = print_cerr Usage w"

text \<open>
  The timed loop \<^verbatim>\<open>for(std::size_t i = 0; i < gTotalFloats; i += gNumFloats) f(d, s);\<close>
  over any state \<open>'s\<close> that the operation \<open>f\<close> transforms. The counter is a
  \<^verbatim>\<open>std::size_t\<close>: its addition wraps, and the loop need not end.
\<close>

partial_function (option) run_loop ::
  "('s \<Rightarrow> abort + 's) \<Rightarrow> size_t \<Rightarrow> size_t \<Rightarrow> size_t \<Rightarrow> 's \<Rightarrow> (abort + 's) option" where
  "run_loop f total_floats num_floats i s =
     (if i < total_floats then
        (case f s of
           Inl e \<Rightarrow> Some (Inl e)
         | Inr s' \<Rightarrow> run_loop f total_floats num_floats (i + num_floats) s')
      else Some (Inr s))"

text \<open>\<open>k\<close> calls of \<open>f\<close> in sequence, stopping where one stops.\<close>

fun repeat_op :: "nat \<Rightarrow> ('s \<Rightarrow> abort + 's) \<Rightarrow> 's \<Rightarrow> abort + 's" where
  "repeat_op 0 f s = Inr s"
| "repeat_op (Suc k) f s = (case f s of Inl e \<Rightarrow> Inl e | Inr s' \<Rightarrow> repeat_op k f s')"

text \<open>An operation on a counter, to count the calls the timed loop makes.\<close>

definition count_call :: "nat \<Rightarrow> abort + nat" where
  "count_call c = Inr (Suc c)"

text \<open>
  The verification loop
  \<^verbatim>\<open>for(std::size_t i = 0; i < gNumFloats; ++i) if(d[i] != expected(i)) { ...; std::exit(1); }\<close>
  returns the index at which it leaves through the \<^verbatim>\<open>if\<close>, or \<open>None\<close> when it runs to
  the end. \<open>actual i\<close> is \<^verbatim>\<open>d[i]\<close>; \<open>expected i\<close> is \<^verbatim>\<open>s[i]\<close> (copy) or \<^verbatim>\<open>a[i] * b[i]\<close>
  (multiply).
\<close>

function verify_loop :: "(nat \<Rightarrow> float) \<Rightarrow> (nat \<Rightarrow> float) \<Rightarrow> nat \<Rightarrow> nat \<Rightarrow> nat option" where
  "verify_loop actual expected n i =
     (if i < n then
        (if float_ne (actual i) (expected i) then Some i
         else verify_loop actual expected n (i + 1))
      else None)"
  by pat_completeness auto
termination
  by (relation "measure (\<lambda>(actual, expected, n, i). n - i)") auto

declare verify_loop.simps [simp del]

text \<open>
  The part of \<^verbatim>\<open>Run\<close> after the pointers are aligned and the destination is zero-filled,
  common to both programs: the timed loop, then the verification, then the report. \<open>time\<close>
  is the value the timer returns for this run.
\<close>

definition timed_and_verified ::
  "(mem \<Rightarrow> abort + mem) \<Rightarrow> (mem \<Rightarrow> nat \<Rightarrow> float) \<Rightarrow> (mem \<Rightarrow> nat \<Rightarrow> float) \<Rightarrow>
   globals \<Rightarrow> float \<Rightarrow> string \<Rightarrow> size_t \<Rightarrow> world \<Rightarrow> outcome option" where
  "timed_and_verified call actual expected g time name alignment w =
     do {
       r \<leftarrow> run_loop call (gTotalFloats g) (gNumFloats g) 0 (mem w);
       Some (case r of
           Inl e \<Rightarrow> Halt e w
         | Inr m' \<Rightarrow>
             (case verify_loop (actual m') (expected m') (unat (gNumFloats g)) 0 of
                Some i \<Rightarrow>
                  Halt (Exit 1) (print_cerr (ErrMismatch name (actual m' i) (expected m' i))
                                   (w\<lparr>mem := m'\<rparr>))
              | None \<Rightarrow>
                  Continue (print_cout (ColumnTime time)
                             (print_cerr (Took name alignment time) (w\<lparr>mem := m'\<rparr>)))))
     }"

text \<open>
  \<^verbatim>\<open>template<void(*f)(float*, float const*)> void Run(name, alignment, d, s)\<close> of
  \<^verbatim>\<open>simd-copy.cpp\<close>. The operation \<open>f\<close> is the template argument; \<open>clock name alignment\<close>
  is what \<^verbatim>\<open>t.Elapsed()\<close> returns in this run.
\<close>

definition copy_Run ::
  "globals \<Rightarrow> (string \<Rightarrow> size_t \<Rightarrow> float) \<Rightarrow> (size_t \<Rightarrow> size_t \<Rightarrow> size_t \<Rightarrow> mem \<Rightarrow> abort + mem) \<Rightarrow>
   string \<Rightarrow> size_t \<Rightarrow> size_t \<Rightarrow> size_t \<Rightarrow> world \<Rightarrow> outcome option" where
  "copy_Run g clock f name alignment d s w =
     do {
       d \<leftarrow> align d alignment;
       s \<leftarrow> align s alignment;
       let w = w\<lparr>mem := std_fill (mem w) d (unat (gNumFloats g)) 0\<rparr>;
       timed_and_verified (f (gNumFloats g) d s) (\<lambda>m. elem m d) (\<lambda>m. elem m s)
         g (clock name alignment) name alignment w
     }"

text \<open>
  \<^verbatim>\<open>template<void(*f)(float*, float const*, float const*)> void Run(name, alignment, d, a, b)\<close>
  of \<^verbatim>\<open>simd-mult.cpp\<close>, and its specialisation \<^verbatim>\<open>Run<NullMult>\<close>, which only prints.
\<close>

definition mult_Run ::
  "globals \<Rightarrow> (string \<Rightarrow> size_t \<Rightarrow> float) \<Rightarrow> (float \<Rightarrow> float \<Rightarrow> float) \<Rightarrow>
   ((float \<Rightarrow> float \<Rightarrow> float) \<Rightarrow> size_t \<Rightarrow> size_t \<Rightarrow> size_t \<Rightarrow> size_t \<Rightarrow> mem \<Rightarrow> abort + mem) \<Rightarrow>
   string \<Rightarrow> size_t \<Rightarrow> size_t \<Rightarrow> size_t \<Rightarrow> size_t \<Rightarrow> world \<Rightarrow> outcome option" where
  "mult_Run g clock fmul f name alignment d a b w =
     do {
       d \<leftarrow> align d alignment;
       a \<leftarrow> align a alignment;
       b \<leftarrow> align b alignment;
       let w = w\<lparr>mem := std_fill (mem w) d (unat (gNumFloats g)) 0\<rparr>;
       timed_and_verified (f fmul (gNumFloats g) d a b) (\<lambda>m. elem m d)
         (\<lambda>m i. fmul (elem m a i) (elem m b i))
         g (clock name alignment) name alignment w
     }"

definition mult_Run_NullMult ::
  "string \<Rightarrow> size_t \<Rightarrow> size_t \<Rightarrow> size_t \<Rightarrow> size_t \<Rightarrow> world \<Rightarrow> outcome option" where
  "mult_Run_NullMult name alignment d a b w = Some (Continue (print_cout ColumnZero w))"

section \<open>The sweep drivers\<close>

text \<open>Statements in sequence: the first that stops, or does not return, ends the sequence.\<close>

fun run_all :: "(world \<Rightarrow> outcome option) list \<Rightarrow> world \<Rightarrow> outcome option" where
  "run_all [] w = Some (Continue w)"
| "run_all (c # cs) w =
     (case c w of
        None \<Rightarrow> None
      | Some (Halt e w') \<Rightarrow> Some (Halt e w')
      | Some (Continue w') \<Rightarrow> run_all cs w')"

definition say :: "event \<Rightarrow> world \<Rightarrow> outcome option" where
  "say e w = Some (Continue (print_cout e w))"

text \<open>
  The body of the loop \<^verbatim>\<open>for(std::size_t alignment = 4; alignment <= 64; ++alignment)\<close> of
  \<^verbatim>\<open>simd-copy.cpp\<close>; \<open>dest\<close> and \<open>source\<close> are \<^verbatim>\<open>dest.data()\<close> and \<^verbatim>\<open>source.data()\<close>.
\<close>

definition copy_row ::
  "globals \<Rightarrow> (string \<Rightarrow> size_t \<Rightarrow> float) \<Rightarrow> size_t \<Rightarrow> size_t \<Rightarrow> size_t \<Rightarrow> world \<Rightarrow> outcome option" where
  "copy_row g clock dest source alignment =
     run_all (
       [say (RowStart alignment),
        copy_Run g clock MemCopy ''std::memcpy'' alignment dest source,
        copy_Run g clock StdCopy ''std::copy'' alignment dest source,
        copy_Run g clock SimpleCopy ''for-loop'' alignment dest source,
        copy_Run g clock UnalignedSseCopy ''Unaligned Sse'' alignment dest source]
       @ (if gHasAvx g
          then [copy_Run g clock UnalignedAvxCopy ''Unaligned Avx'' alignment dest source]
          else [copy_Run g clock NullCopy ''Unaligned Avx'' alignment source source])
       @ (if alignment mod 16 = 0
          then [copy_Run g clock AlignedSseCopy ''Aligned Sse'' alignment dest source,
                copy_Run g clock AlignedSseNonTemporalCopy ''Aligned Sse Stream'' alignment dest source]
          else [copy_Run g clock NullCopy ''Aligned Sse'' alignment source source,
                copy_Run g clock NullCopy ''Aligned Sse Stream'' alignment source source])
       @ (if alignment mod 32 = 0 \<and> gHasAvx g
          then [copy_Run g clock AlignedAvxCopy ''Aligned Avx'' alignment dest source,
                copy_Run g clock AlignedAvxNonTemporalCopy ''Aligned Avx Stream'' alignment dest source]
          else [copy_Run g clock NullCopy ''Aligned Avx'' alignment source source,
                copy_Run g clock NullCopy ''Aligned Avx Stream'' alignment source source]))"

text \<open>The sweep offsets 4, 5, ..., 64.\<close>

definition sweep_offsets :: "size_t list" where
  "sweep_offsets = map of_nat [4..<65]"

text \<open>
  \<^verbatim>\<open>main\<close> of \<^verbatim>\<open>simd-copy.cpp\<close>. \<open>opts\<close> is the outcome of the four \<^verbatim>\<open>get_option\<close> calls:
  \<open>None\<close> when a value does not parse (\<^verbatim>\<open>print_usage(); exit(1);\<close>), else the globals as
  the command line sets them. \<open>source\<close> and \<open>dest\<close> are the addresses the allocator gives
  the two vectors. The result \<open>Halt (Exit c) w\<close> is the process ending with exit code \<open>c\<close>.
\<close>

definition copy_main ::
  "globals option \<Rightarrow> (string \<Rightarrow> size_t \<Rightarrow> float) \<Rightarrow> size_t \<Rightarrow> size_t \<Rightarrow> world \<Rightarrow> outcome option" where
  "copy_main opts clock source dest w =
     (case opts of
        None \<Rightarrow> Some (Halt (Exit 1) (print_usage w))
      | Some g \<Rightarrow>
          if gTotalFloats g < gNumFloats g
          then Some (Halt (Exit 0) (print_usage (print_cerr ErrTotalFloats w)))
          else
            (case run_all (
                 (if gHtmlOut g then [say HtmlHead] else [])
                 @ [\<lambda>w. Some (Continue (w\<lparr>mem :=
                       std_fill (std_fill (mem w) source (unat (gNumFloats g + 0x100)) (gCheckValue g))
                         dest (unat (gNumFloats g + 0x100)) 0\<rparr>)),
                    say TableHead]
                 @ map (copy_row g clock dest source) sweep_offsets
                 @ [say TableEnd]
                 @ (if gHtmlOut g then [say HtmlTail] else [])) w of
               None \<Rightarrow> None
             | Some (Halt e w') \<Rightarrow> Some (Halt e w')
             | Some (Continue w') \<Rightarrow> Some (Halt (Exit 0) w')))"

text \<open>The loop body of \<^verbatim>\<open>main\<close> of \<^verbatim>\<open>simd-mult.cpp\<close>, compiled with \<^verbatim>\<open>SUPPORT_AVX\<close> 1.\<close>

definition mult_row ::
  "globals \<Rightarrow> (string \<Rightarrow> size_t \<Rightarrow> float) \<Rightarrow> (float \<Rightarrow> float \<Rightarrow> float) \<Rightarrow>
   size_t \<Rightarrow> size_t \<Rightarrow> size_t \<Rightarrow> world \<Rightarrow> outcome option" where
  "mult_row g clock fmul dest source alignment =
     run_all (
       [say (RowStart alignment),
        mult_Run g clock fmul NiaveMult ''for-loop'' alignment dest source (elem_addr source 256),
        mult_Run g clock fmul UnalignedSseMult ''Unaligned Sse'' alignment dest source (elem_addr source 256)]
       @ (if gHasAvx g
          then [mult_Run g clock fmul UnalignedAvxMult ''Unaligned Avx'' alignment dest source (elem_addr source 256)]
          else [mult_Run_NullMult ''Unaligned Avx'' alignment source source (elem_addr source 256)])
       @ (if alignment mod 16 = 0
          then [mult_Run g clock fmul AlignedSseMult ''Aligned Sse'' alignment dest source (elem_addr source 256),
                mult_Run g clock fmul AlignedSseNonTemporalMult ''Aligned Sse Stream'' alignment dest source (elem_addr source 256)]
          else [mult_Run_NullMult ''Aligned Sse'' alignment source source (elem_addr source 256),
                mult_Run_NullMult ''Aligned Sse Stream'' alignment source source (elem_addr source 256)])
       @ (if alignment mod 32 = 0 \<and> gHasAvx g
          then [mult_Run g clock fmul AlignedAvxMult ''Aligned Avx'' alignment dest source (elem_addr source 256),
                mult_Run g clock fmul AlignedAvxNonTemporalMult ''Aligned Avx Stream'' alignment dest source (elem_addr source 256)]
          else [mult_Run_NullMult ''Aligned Avx'' alignment source source (elem_addr source 256),
                mult_Run_NullMult ''Aligned Avx Stream'' alignment source source (elem_addr source 256)]))"

text \<open>
  \<^verbatim>\<open>main\<close> of \<^verbatim>\<open>simd-mult.cpp\<close>. \<open>opts\<close> is the outcome of \<^verbatim>\<open>opts.parse(argc, argv)\<close>:
  \<open>None\<close> when it throws (\<^verbatim>\<open>std::cerr << e.what(); print_usage(); std::exit(1);\<close>).
\<close>

definition mult_main ::
  "globals option \<Rightarrow> (string \<Rightarrow> size_t \<Rightarrow> float) \<Rightarrow> (float \<Rightarrow> float \<Rightarrow> float) \<Rightarrow>
   size_t \<Rightarrow> size_t \<Rightarrow> world \<Rightarrow> outcome option" where
  "mult_main opts clock fmul source dest w =
     (case opts of
        None \<Rightarrow> Some (Halt (Exit 1) (print_usage (print_cerr ErrWhat w)))
      | Some g \<Rightarrow>
          if gTotalFloats g < gNumFloats g
          then Some (Halt (Exit 0) (print_usage (print_cerr ErrTotalFloats w)))
          else
            (case run_all (
                 (if gHtmlOut g then [say HtmlHead] else [])
                 @ [\<lambda>w. Some (Continue (w\<lparr>mem :=
                       std_fill (std_fill (mem w) source (unat (gNumFloats g + 0x1000)) (gCheckValue g))
                         dest (unat (gNumFloats g + 0x100)) 0\<rparr>)),
                    say TableHead]
                 @ map (mult_row g clock fmul dest source) sweep_offsets
                 @ [say TableEnd]
                 @ (if gHtmlOut g then [say HtmlTail] else [])) w of
               None \<Rightarrow> None
             | Some (Halt e w') \<Rightarrow> Some (Halt e w')
             | Some (Continue w') \<Rightarrow> Some (Halt (Exit 0) w')))"

section \<open>Notions used to state the properties\<close>

text \<open>
  The memory \<open>m\<close> with the \<open>n\<close> floats \<open>g 0, ..., g (n - 1)\<close> written to the array at \<open>d\<close>:
  the closed form of what a run of an operation leaves behind.
\<close>

definition elems_set :: "mem \<Rightarrow> size_t \<Rightarrow> nat \<Rightarrow> (nat \<Rightarrow> float) \<Rightarrow> mem" where
  "elems_set m d n g =
     (\<lambda>x. if unat (x - d) < 4 * n
          then float_byte (g (unat (x - d) div 4)) (unat (x - d) mod 4)
          else m x)"

text \<open>
  Two regions of \<open>len\<close> bytes that start at \<open>d\<close> and at \<open>s\<close> share no byte: going up from
  either start, the other start is at least \<open>len\<close> bytes away.
\<close>

definition regions_apart :: "size_t \<Rightarrow> size_t \<Rightarrow> nat \<Rightarrow> bool" where
  "regions_apart d s len = (len \<le> unat (s - d) \<and> len \<le> unat (d - s))"

text \<open>
  The operations other than the no-op, in the column order of the tables, each with
  what the source fixes for it: the elements it handles per loop iteration, the byte
  alignment its vector accesses need (1: none), and whether its loop counter is an
  \<^verbatim>\<open>int\<close>.
\<close>

record 'f variant =
  op_call :: 'f
  op_step :: nat
  op_align :: nat
  op_int :: bool

definition copy_variants ::
  "(size_t \<Rightarrow> size_t \<Rightarrow> size_t \<Rightarrow> mem \<Rightarrow> abort + mem) variant list" where
  "copy_variants =
     [\<lparr>op_call = MemCopy, op_step = 1, op_align = 1, op_int = False\<rparr>,
      \<lparr>op_call = StdCopy, op_step = 1, op_align = 1, op_int = False\<rparr>,
      \<lparr>op_call = SimpleCopy, op_step = 1, op_align = 1, op_int = True\<rparr>,
      \<lparr>op_call = UnalignedSseCopy, op_step = 4, op_align = 1, op_int = True\<rparr>,
      \<lparr>op_call = UnalignedAvxCopy, op_step = 8, op_align = 1, op_int = True\<rparr>,
      \<lparr>op_call = AlignedSseCopy, op_step = 4, op_align = 16, op_int = True\<rparr>,
      \<lparr>op_call = AlignedSseNonTemporalCopy, op_step = 4, op_align = 16, op_int = True\<rparr>,
      \<lparr>op_call = AlignedAvxCopy, op_step = 8, op_align = 32, op_int = True\<rparr>,
      \<lparr>op_call = AlignedAvxNonTemporalCopy, op_step = 8, op_align = 32, op_int = True\<rparr>]"

definition mult_variants ::
  "((float \<Rightarrow> float \<Rightarrow> float) \<Rightarrow> size_t \<Rightarrow> size_t \<Rightarrow> size_t \<Rightarrow> size_t \<Rightarrow> mem \<Rightarrow> abort + mem)
     variant list" where
  "mult_variants =
     [\<lparr>op_call = NiaveMult, op_step = 1, op_align = 1, op_int = True\<rparr>,
      \<lparr>op_call = UnalignedSseMult, op_step = 4, op_align = 1, op_int = True\<rparr>,
      \<lparr>op_call = UnalignedAvxMult, op_step = 8, op_align = 1, op_int = True\<rparr>,
      \<lparr>op_call = AlignedSseMult, op_step = 4, op_align = 16, op_int = True\<rparr>,
      \<lparr>op_call = AlignedSseNonTemporalMult, op_step = 4, op_align = 16, op_int = True\<rparr>,
      \<lparr>op_call = AlignedAvxMult, op_step = 8, op_align = 32, op_int = True\<rparr>,
      \<lparr>op_call = AlignedAvxNonTemporalMult, op_step = 8, op_align = 32, op_int = True\<rparr>]"

text \<open>The preconditions of one call of a variant on \<open>n\<close> elements.\<close>

definition fits :: "'f variant \<Rightarrow> size_t \<Rightarrow> bool" where
  "fits v n = (op_step v dvd unat n \<and> (if op_int v then unat n \<le> INT_MAX else True))"

definition aligned_for :: "'f variant \<Rightarrow> size_t \<Rightarrow> bool" where
  "aligned_for v p = (p mod of_nat (op_align v) = 0)"

subsection \<open>Concrete inputs for the examples\<close>

text \<open>
  A memory of zero bytes; a timer that always reads 0.001 s; a stand-in for the float
  product that is right whenever one factor is 1.0 (\<open>0x3F800000\<close>).
\<close>

definition zero_mem :: mem where
  "zero_mem = (\<lambda>x. 0)"


definition test_fmul :: "float \<Rightarrow> float \<Rightarrow> float" where
  "test_fmul x y = (if x = 0x3F800000 then y else if y = 0x3F800000 then x else 0)"

text \<open>A memory with eight floats 1.0 at address \<open>0x1000\<close> and zero bytes elsewhere.\<close>

definition ones_mem :: mem where
  "ones_mem = std_fill zero_mem 0x1000 8 0x3F800000"




text \<open>
  The memory after \<^verbatim>\<open>main\<close> of \<^verbatim>\<open>simd-copy.cpp\<close> has built the source vector, with the
  default tunables, when the allocator places it at address \<open>0x100000\<close>; and the float
  that ends up at element \<open>i\<close> of the array at \<open>p\<close> once a run has returned.
\<close>

definition default_source_mem :: mem where
  "default_source_mem =
     std_fill zero_mem 0x100000 (unat (gNumFloats default_globals + 0x100))
       (gCheckValue default_globals)"

fun final_elem :: "outcome option \<Rightarrow> size_t \<Rightarrow> nat \<Rightarrow> float option" where
  "final_elem None p i = None"
| "final_elem (Some (Continue w)) p i = Some (elem (mem w) p i)"
| "final_elem (Some (Halt e w)) p i = Some (elem (mem w) p i)"

section \<open>Properties of the alignment utility\<close>

lemma dvd_256_size: "(256::nat) dvd 2 ^ 64"
proof -
  have "(2::nat) ^ 64 = 256 * 2 ^ 56" by simp
  then show ?thesis by (metis dvd_triv_left)
qed

lemma unat_add_of_nat_mod256:
  "unat (((p::size_t) + of_nat j) mod 256) = (unat p + j) mod 256"
proof -
  have "unat ((p + of_nat j) mod 256) = unat (p + of_nat j) mod 256"
    by (simp add: unat_mod)
  also have "unat (p + of_nat j) = (unat p + j) mod 2 ^ 64"
    by (simp add: unat_word_ariths unat_of_nat mod_add_right_eq)
  also have "(unat p + j) mod 2 ^ 64 mod 256 = (unat p + j) mod 256"
    by (rule mod_mod_cancel [OF dvd_256_size])
  finally show ?thesis .
qed

lemma residue_iff:
  assumes "k < 256"
  shows "((p::size_t) + of_nat j) mod 256 = k \<longleftrightarrow> (unat p + j) mod 256 = unat k"
proof -
  have "(p + of_nat j) mod 256 = k \<longleftrightarrow> unat ((p + of_nat j) mod 256) = unat k"
    by (simp add: word_unat_eq_iff)
  then show ?thesis by (simp add: unat_add_of_nat_mod256)
qed

lemma align_loop_skip:
  "(\<forall>j<n. (p + of_nat j) mod 256 \<noteq> k) \<Longrightarrow> align_loop p k = align_loop (p + of_nat n) k"
proof (induction n)
  case 0
  then show ?case by simp
next
  case (Suc n)
  then have "align_loop p k = align_loop (p + of_nat n) k" by simp
  also have "\<dots> = align_loop (p + of_nat n + 1) k"
    using Suc.prems by (subst align_loop.simps) simp
  finally show ?case by (simp add: ac_simps)
qed

lemma align_loop_stop: "p mod 256 = k \<Longrightarrow> align_loop p k = Some p"
  by (subst align_loop.simps) simp

lemma mod256_small: "x < 512 \<Longrightarrow> (x::nat) mod 256 = (if x < 256 then x else x - 256)"
proof (cases "x < 256")
  case True
  then show ?thesis by simp
next
  case False
  assume "x < 512"
  with False have "x mod 256 = (x - 256) mod 256" "x - 256 < 256"
    by (simp_all add: le_mod_geq)
  with False show ?thesis by simp
qed

lemma align_steps_eq:
  assumes "unat k < 256" and "(unat p + j) mod 256 = unat k"
  shows "align_steps p k = j mod 256"
proof -
  define r where "r = unat p mod 256"
  define j' where "j' = j mod 256"
  have r: "r < 256" and j': "j' < 256" by (simp_all add: r_def j'_def)
  have "(unat p + j) mod 256 = (r + j') mod 256"
    unfolding r_def j'_def by (rule mod_add_eq [symmetric])
  with assms(2) have "(r + j') mod 256 = unat k" by simp
  moreover have "(r + j') mod 256 = (if r + j' < 256 then r + j' else r + j' - 256)"
    using r j' by (intro mod256_small) simp
  ultimately have c: "unat k = (if r + j' < 256 then r + j' else r + j' - 256)" by simp
  have "unat k + 256 - r < 512" using assms(1) by simp
  then have "(unat k + 256 - r) mod 256 =
      (if unat k + 256 - r < 256 then unat k + 256 - r else unat k + 256 - r - 256)"
    by (rule mod256_small)
  with c r j' have "(unat k + 256 - r) mod 256 = j'" by (simp split: if_splits)
  then show ?thesis by (simp add: align_steps_def r_def j'_def)
qed

lemma align_steps_lt: "align_steps p k < 256"
  by (simp add: align_steps_def)

lemma align_steps_hit:
  assumes "k < 256"
  shows "(unat p + align_steps p k) mod 256 = unat k"
proof -
  define r where "r = unat p mod 256"
  have k: "unat k < 256" using assms by (simp add: word_less_nat_alt)
  have r: "r < 256" by (simp add: r_def)
  have "(unat p + align_steps p k) mod 256 = (unat p mod 256 + align_steps p k mod 256) mod 256"
    by (rule mod_add_eq [symmetric])
  also have "align_steps p k mod 256 = (unat k + 256 - r) mod 256"
    by (simp add: align_steps_def r_def)
  also have "(unat p mod 256 + (unat k + 256 - r) mod 256) mod 256 = (r + (unat k + 256 - r)) mod 256"
    unfolding r_def by (rule mod_add_right_eq)
  also have "r + (unat k + 256 - r) = unat k + 256" using r by simp
  also have "(unat k + 256) mod 256 = unat k" using k by simp
  finally show ?thesis .
qed

lemma align_steps_least:
  assumes "k < 256" and "(unat p + j) mod 256 = unat k"
  shows "align_steps p k \<le> j"
proof -
  have "unat k < 256" using assms(1) by (simp add: word_less_nat_alt)
  then have "align_steps p k = j mod 256" using assms(2) by (rule align_steps_eq)
  then show ?thesis by simp
qed

lemma align_steps_first:
  assumes "k < 256" and "j < align_steps p k"
  shows "(p + of_nat j) mod 256 \<noteq> k"
  using align_steps_least [OF assms(1), of p j] residue_iff [OF assms(1), of p j] assms(2)
  by auto

lemma align_value:
  assumes "k < 256"
  shows "align p k = Some (p + of_nat (align_steps p k))"
proof -
  have "\<forall>j<align_steps p k. (p + of_nat j) mod 256 \<noteq> k"
    using align_steps_first [OF assms] by blast
  then have "align_loop p k = align_loop (p + of_nat (align_steps p k)) k"
    by (rule align_loop_skip)
  also have "\<dots> = Some (p + of_nat (align_steps p k))"
    by (rule align_loop_stop) (simp add: residue_iff [OF assms] align_steps_hit [OF assms])
  finally show ?thesis by (simp add: align_def)
qed

lemma align_residue:
  assumes "k < 256"
  shows "(p + of_nat (align_steps p k)) mod 256 = k"
  by (simp add: residue_iff [OF assms] align_steps_hit [OF assms])

lemma align_loop_Some_lt: "align_loop p k = Some y \<Longrightarrow> k < 256"
proof (rule align_loop.raw_induct [where P = "\<lambda>a k y. k < 256"])
  fix f :: "size_t \<Rightarrow> size_t \<Rightarrow> size_t option" and address aligned_to y
  assume ih: "\<And>a b y. f a b = Some y \<Longrightarrow> b < 256"
    and eq: "(if address mod 256 \<noteq> aligned_to then f (address + 1) aligned_to
              else Some address) = Some y"
  show "aligned_to < 256"
  proof (cases "address mod 256 \<noteq> aligned_to")
    case True
    with eq have "f (address + 1) aligned_to = Some y" by simp
    then show ?thesis by (rule ih)
  next
    case False
    then have "aligned_to = address mod 256" by simp
    moreover have "address mod 256 < 256"
      by (rule word_mod_less_divisor) simp
    ultimately show ?thesis by simp
  qed
qed

lemma align_diverges:
  assumes "256 \<le> k"
  shows "align p k = None"
proof (cases "align_loop p k")
  case None
  then show ?thesis by (simp add: align_def)
next
  case (Some y)
  then have "k < 256" by (rule align_loop_Some_lt)
  with assms show ?thesis by simp
qed







text \<open>
  C10. When the offset is below 256 the loop of \<open>align\<close> ends after \<open>n \<le> 255\<close> increments:
  the loop condition holds at \<open>p, p + 1, ..., p + n - 1\<close>, fails at \<open>p + n\<close>, and \<open>p + n\<close> is
  returned. When the offset is 256 or more the loop never ends.
\<close>

theorem align_terminates_iff_offset_below_256:
  "(aligned_to < 256 \<longrightarrow>
      (\<exists>n. n \<le> 255 \<and> align p aligned_to = Some (p + of_nat n) \<and>
           (\<forall>j<n. (p + of_nat j) mod 256 \<noteq> aligned_to) \<and> (p + of_nat n) mod 256 = aligned_to)) \<and>
   (256 \<le> aligned_to \<longrightarrow> align p aligned_to = None)"
proof (intro conjI impI)
  assume k: "aligned_to < 256"
  have "align_steps p aligned_to \<le> 255" using align_steps_lt [of p aligned_to] by simp
  then show "\<exists>n. n \<le> 255 \<and> align p aligned_to = Some (p + of_nat n) \<and>
           (\<forall>j<n. (p + of_nat j) mod 256 \<noteq> aligned_to) \<and> (p + of_nat n) mod 256 = aligned_to"
    using align_value [OF k, of p] align_steps_first [OF k, of _ p] align_residue [OF k, of p]
    by blast
next
  assume "256 \<le> aligned_to"
  then show "align p aligned_to = None" by (rule align_diverges)
qed

theorem align_terminates_iff_offset_below_256_witness:
  "(4::size_t) < 256 \<and> (\<exists>n. n \<le> 255 \<and> align 0x1003 4 = Some (0x1003 + of_nat n)) \<and>
   (256::size_t) \<le> 256 \<and> align 0x1003 256 = None"
  using align_terminates_iff_offset_below_256 [of 4 "0x1003"]
    align_terminates_iff_offset_below_256 [of 256 "0x1003"]
  by auto

section \<open>The number of calls of the timed loop\<close>

lemma ceil_div_upper: "0 < N \<Longrightarrow> (T::nat) \<le> ((T + N - 1) div N) * N"
proof -
  assume N: "0 < N"
  have "T + N - 1 = ((T + N - 1) div N) * N + (T + N - 1) mod N"
    by simp
  moreover have "(T + N - 1) mod N < N" using N by simp
  ultimately show ?thesis by linarith
qed

lemma ceil_div_lower: "0 < N \<Longrightarrow> 0 < T \<Longrightarrow> j < (T + N - 1) div N \<Longrightarrow> j * N < (T::nat)"
proof -
  assume N: "0 < N" and T: "0 < T" and j: "j < (T + N - 1) div N"
  then have "Suc j \<le> (T + N - 1) div N" by simp
  then have "Suc j * N \<le> ((T + N - 1) div N) * N" by (rule mult_le_mono1)
  also have "\<dots> \<le> T + N - 1" by simp
  finally have "j * N + N \<le> T + N - 1" by simp
  with T show ?thesis by linarith
qed

lemma unat_of_nat_size: "x < 2 ^ 64 \<Longrightarrow> unat (of_nat x :: size_t) = x"
  by (simp add: unat_of_nat)

lemma run_loop_counts:
  fixes f :: "'s \<Rightarrow> abort + 's"
  assumes N: "0 < unat n" and T: "0 < unat t"
    and nowrap: "((unat t + unat n - 1) div unat n) * unat n < 2 ^ 64"
  shows "j \<le> (unat t + unat n - 1) div unat n \<Longrightarrow>
         run_loop f t n (of_nat (j * unat n)) s =
           Some (repeat_op ((unat t + unat n - 1) div unat n - j) f s)"
proof (induction "(unat t + unat n - 1) div unat n - j" arbitrary: j s)
  case 0
  then have j: "j = (unat t + unat n - 1) div unat n" by simp
  have "unat t \<le> j * unat n" unfolding j by (rule ceil_div_upper [OF N])
  moreover have "j * unat n < 2 ^ 64" using nowrap unfolding j .
  then have "unat (of_nat (j * unat n) :: size_t) = j * unat n"
    by (rule unat_of_nat_size)
  ultimately have "\<not> (of_nat (j * unat n) :: size_t) < t"
    by (simp add: word_less_nat_alt)
  then show ?case using 0 by (subst run_loop.simps) simp
next
  case (Suc k)
  then have jlt: "j < (unat t + unat n - 1) div unat n" by simp
  have lt: "j * unat n < unat t" by (rule ceil_div_lower [OF N T jlt])
  have "unat t < 2 ^ 64" using unsigned_less [of t, where 'a = nat] by simp
  with lt have "j * unat n < 2 ^ 64" by simp
  then have "unat (of_nat (j * unat n) :: size_t) = j * unat n"
    by (rule unat_of_nat_size)
  with lt have cond: "(of_nat (j * unat n) :: size_t) < t"
    by (simp add: word_less_nat_alt)
  have next_i: "(of_nat (j * unat n) :: size_t) + n = of_nat (Suc j * unat n)"
    by simp
  have k: "k = (unat t + unat n - 1) div unat n - Suc j" using Suc.hyps(2) by simp
  have d: "(unat t + unat n - 1) div unat n - j = Suc ((unat t + unat n - 1) div unat n - Suc j)"
    using jlt by simp
  show ?case
  proof (cases "f s")
    case (Inl e)
    then show ?thesis using cond d by (subst run_loop.simps) simp
  next
    case (Inr s')
    have "run_loop f t n (of_nat (Suc j * unat n)) s' =
          Some (repeat_op ((unat t + unat n - 1) div unat n - Suc j) f s')"
      using Suc.hyps(1) [OF k] jlt by simp
    then show ?thesis using cond d Inr next_i by (subst run_loop.simps) (simp add: ac_simps)
  qed
qed

lemma run_loop_result:
  fixes f :: "'s \<Rightarrow> abort + 's"
  assumes "0 < num_floats" and "num_floats \<le> total_floats"
    and "((unat total_floats + unat num_floats - 1) div unat num_floats) * unat num_floats < 2 ^ 64"
  shows "run_loop f total_floats num_floats 0 s =
           Some (repeat_op ((unat total_floats + unat num_floats - 1) div unat num_floats) f s)"
proof -
  have N: "0 < unat num_floats" using assms(1) by (simp add: word_less_nat_alt)
  with assms(2) have T: "0 < unat total_floats" by (simp add: word_le_nat_alt)
  show ?thesis using run_loop_counts [OF N T assms(3), of 0 f s] by simp
qed

lemma repeat_count_call: "repeat_op k count_call c = Inr (c + k)"
  by (induction k arbitrary: c) (simp_all add: count_call_def)

text \<open>
  C1 (as the code has it). With \<open>gNumFloats > 0\<close> and \<open>gTotalFloats \<ge> gNumFloats\<close>, and
  as long as the counter does not wrap, the timed loop calls the operation exactly
  \<open>\<lceil>gTotalFloats / gNumFloats\<rceil>\<close> times, each call on the state the previous one left and
  with the same arguments: a last full pass is issued also when fewer than \<open>gNumFloats\<close>
  elements remain. An operation that counts its calls ends that many above where it
  started.
\<close>

theorem run_loop_calls_ceiling:
  fixes f :: "'s \<Rightarrow> abort + 's"
  assumes "0 < num_floats" and "num_floats \<le> total_floats"
    and "((unat total_floats + unat num_floats - 1) div unat num_floats) * unat num_floats < 2 ^ 64"
  shows "run_loop f total_floats num_floats 0 s =
           Some (repeat_op ((unat total_floats + unat num_floats - 1) div unat num_floats) f s) \<and>
         run_loop count_call total_floats num_floats 0 c =
           Some (Inr (c + (unat total_floats + unat num_floats - 1) div unat num_floats))"
  using run_loop_result [OF assms, of f s] run_loop_result [OF assms, of count_call c]
  by (simp add: repeat_count_call)

theorem run_loop_calls_ceiling_witness:
  "(0::size_t) < 2 \<and> (2::size_t) \<le> 5 \<and> run_loop count_call 5 2 0 0 = Some (Inr 3)"
  using run_loop_calls_ceiling [of 2 5 count_call 0 0]
  by (simp add: repeat_count_call)

text \<open>
  C1 as the spec states it fails: with 7 total elements and passes of 2 the loop calls the
  operation 4 times, and \<open>\<lfloor>7 / 2\<rfloor> = 3\<close>.
\<close>

theorem run_loop_not_floor_counterexample:
  "(0::size_t) < 2 \<and> (2::size_t) \<le> 7 \<and> run_loop count_call 7 2 0 0 = Some (Inr 4) \<and>
   unat (7::size_t) div unat (2::size_t) = 3"
  by (simp add: run_loop.simps count_call_def)

section \<open>Memory lemmas\<close>

lemma bytes_float_bytes:
  "bytes_float (float_byte v 0) (float_byte v 1) (float_byte v 2) (float_byte v 3) = v"
  unfolding bytes_float_def float_byte_def
proof (rule bit_word_eqI, goal_cases)
  case (1 n)
  then have "n < 8 \<or> (8 \<le> n \<and> n < 16) \<or> (16 \<le> n \<and> n < 24) \<or> (24 \<le> n \<and> n < 32)"
    by simp arith
  then show ?case
    by (elim disjE) (auto simp: bit_simps)
qed

lemma byte_bit_lt: "bit (b::byte) k \<Longrightarrow> k < 8"
  using bit_imp_le_length [of b k] by simp

lemma float_byte_bytes:
  "float_byte (bytes_float b0 b1 b2 b3) 0 = b0"
  "float_byte (bytes_float b0 b1 b2 b3) 1 = b1"
  "float_byte (bytes_float b0 b1 b2 b3) 2 = b2"
  "float_byte (bytes_float b0 b1 b2 b3) 3 = b3"
  unfolding bytes_float_def float_byte_def
  by (rule bit_word_eqI; auto simp: bit_simps dest: byte_bit_lt)+

lemma lt4_cases: "b < 4 \<Longrightarrow> b = 0 \<or> b = 1 \<or> b = 2 \<or> b = (3::nat)"
  by arith

lemma float_byte_load:
  assumes "b < 4"
  shows "float_byte (load_float m q) b = m (q + of_nat b)"
  using lt4_cases [OF assms] float_byte_bytes [of "m q" "m (q + 1)" "m (q + 2)" "m (q + 3)"]
  by (auto simp: load_float_def)

lemma load_float_eqI:
  assumes "\<And>b. b < 4 \<Longrightarrow> m (q + of_nat b) = float_byte v b"
  shows "load_float m q = v"
proof -
  have "m q = float_byte v 0" "m (q + 1) = float_byte v 1" "m (q + 2) = float_byte v 2"
    "m (q + 3) = float_byte v 3"
    using assms [of 0] assms [of 1] assms [of 2] assms [of 3] by simp_all
  then show ?thesis using bytes_float_bytes [of v] by (simp add: load_float_def)
qed

lemma load_float_cong:
  assumes "\<And>b. b < 4 \<Longrightarrow> m (q + of_nat b) = m' (q + of_nat b)"
  shows "load_float m q = load_float m' q"
  by (rule load_float_eqI) (simp add: assms float_byte_load)

subsection \<open>Offsets in the address space\<close>

lemma unat_lt_size: "unat (x :: size_t) < 2 ^ 64"
  using unsigned_less [of x, where 'a = nat] by simp

lemma unat_minus_offset:
  assumes "c < 2 ^ 64"
  shows "unat ((x::size_t) - (d + of_nat c)) =
           (if c \<le> unat (x - d) then unat (x - d) - c else unat (x - d) + 2 ^ 64 - c)"
proof -
  have "x - (d + of_nat c) = (x - d) - of_nat c" by simp
  then show ?thesis
    by (simp only: unat_sub_if' unat_of_nat_size [OF assms]) (simp add: word_size)
qed

lemma unat_plus_offset_minus:
  assumes "c < 2 ^ 64"
  shows "unat ((d::size_t) + of_nat c - d) = c"
  using assms by (simp add: unat_of_nat_size)

lemma elem_addr_offset: "elem_addr d i + of_nat b = d + of_nat (4 * i + b)"
  by (simp add: elem_addr_def)

lemma elem_addr_eq: "elem_addr d i = d + of_nat (4 * i)"
  by (simp add: elem_addr_def)

lemma elem_addr_Suc: "elem_addr d i + 4 = elem_addr d (Suc i)"
  by (simp add: elem_addr_def)

lemma elem_addr_0: "elem_addr d 0 = d"
  by (simp add: elem_addr_def)

subsection \<open>Stores into the closed form\<close>

lemma elems_set_0: "elems_set m d 0 g = m"
  by (simp add: elems_set_def)

lemma elems_set_outside: "4 * n \<le> unat (x - d) \<Longrightarrow> elems_set m d n g x = m x"
  by (simp add: elems_set_def)

lemma store_float_elems_set:
  assumes "4 * Suc i \<le> 2 ^ 64"
  shows "store_float (elems_set m d i g) (elem_addr d i) (g i) = elems_set m d (Suc i) g"
proof (rule ext)
  fix x
  define k where "k = unat (x - d)"
  have c: "4 * i < (2::nat) ^ 64" using assms by simp
  have u: "unat (x - elem_addr d i) = (if 4 * i \<le> k then k - 4 * i else k + 2 ^ 64 - 4 * i)"
    unfolding elem_addr_eq k_def by (rule unat_minus_offset [OF c])
  have lt: "x - elem_addr d i < 4 \<longleftrightarrow> unat (x - elem_addr d i) < 4"
    by (simp add: word_less_nat_alt)
  show "store_float (elems_set m d i g) (elem_addr d i) (g i) x = elems_set m d (Suc i) g x"
  proof (cases "4 * i \<le> k")
    case True
    show ?thesis
    proof (cases "k < 4 * i + 4")
      case True
      with \<open>4 * i \<le> k\<close> have "k div 4 = i" "k mod 4 = k - 4 * i" "k - 4 * i < 4" "k < 4 * Suc i"
        by arith+
      with True \<open>4 * i \<le> k\<close> show ?thesis
        by (simp add: store_float_def lt u elems_set_def k_def [symmetric])
    next
      case False
      with \<open>4 * i \<le> k\<close> have "\<not> k - 4 * i < 4" "\<not> k < 4 * i" "\<not> k < 4 * Suc i"
        by arith+
      with \<open>4 * i \<le> k\<close> show ?thesis
        by (simp add: store_float_def lt u elems_set_def k_def [symmetric])
    qed
  next
    case False
    then have "\<not> k + 2 ^ 64 - 4 * i < 4" using assms by simp
    with False show ?thesis
      by (simp add: store_float_def lt u elems_set_def k_def [symmetric])
  qed
qed

lemma load_float_elems_set_in:
  assumes "j < n" and "4 * n \<le> 2 ^ 64"
  shows "load_float (elems_set m d n g) (elem_addr d j) = g j"
proof (rule load_float_eqI)
  fix b :: nat
  assume b: "b < 4"
  have "4 * j + b < 2 ^ 64" using assms b by simp
  then have "unat (d + of_nat (4 * j + b) - d) = 4 * j + b"
    by (rule unat_plus_offset_minus)
  moreover have "4 * j + b < 4 * n" using assms(1) b by simp
  moreover have "(4 * j + b) div 4 = j" "(4 * j + b) mod 4 = b" using b by simp_all
  ultimately show "elems_set m d n g (elem_addr d j + of_nat b) = float_byte (g j) b"
    by (simp only: elem_addr_offset elems_set_def if_True)
qed

lemma load_float_elems_set_out:
  assumes "\<And>b. b < 4 \<Longrightarrow> 4 * n \<le> unat (q + of_nat b - d)"
  shows "load_float (elems_set m d n g) q = load_float m q"
  by (rule load_float_cong) (simp add: elems_set_outside assms)

subsection \<open>Regions that do not meet\<close>

lemma unat_neg_diff:
  "unat ((d::size_t) - s) = (if s - d = 0 then 0 else 2 ^ 64 - unat (s - d))"
proof -
  have "d - s = 0 - (s - d)" by simp
  then have "unat (d - s) = (if unat (s - d) \<le> 0 then 0 - unat (s - d) else 0 + 2 ^ 64 - unat (s - d))"
    by (simp only: unat_sub_if') (simp add: word_size)
  then show ?thesis by (simp add: unat_eq_0)
qed

lemma regions_apart_offset:
  assumes "regions_apart d s len" and "y < len"
  shows "len \<le> unat (s + of_nat y - d)"
proof -
  have a: "len \<le> unat (s - d)" and b: "len \<le> unat (d - s)"
    using assms(1) by (simp_all add: regions_apart_def)
  have y: "y < 2 ^ 64" using assms(2) a unat_lt_size [of "s - d"] by simp
  have "s + of_nat y - d = (s - d) + of_nat y" by simp
  then have u: "unat (s + of_nat y - d) = (unat (s - d) + y) mod 2 ^ 64"
    by (simp only: unat_word_ariths unat_of_nat_size [OF y]) simp
  have "unat (d - s) = (if s - d = 0 then 0 else 2 ^ 64 - unat (s - d))"
    by (rule unat_neg_diff)
  with b assms(2) have "unat (s - d) + len \<le> 2 ^ 64"
    by (cases "s - d = 0") (use unat_lt_size [of "s - d"] in auto)
  with assms(2) have "unat (s - d) + y < 2 ^ 64" by simp
  with u a show ?thesis by simp
qed

lemma regions_apart_size:
  assumes "regions_apart d s len" and "0 < len"
  shows "2 * len \<le> 2 ^ 64"
proof -
  have a: "len \<le> unat (s - d)" and b: "len \<le> unat (d - s)"
    using assms(1) by (simp_all add: regions_apart_def)
  have "unat (d - s) = (if s - d = 0 then 0 else 2 ^ 64 - unat (s - d))"
    by (rule unat_neg_diff)
  with a b assms(2) show ?thesis
    by (cases "s - d = 0") (use unat_lt_size [of "s - d"] in auto)
qed

section \<open>Loops over elements\<close>

lemma for_int_rule:
  assumes step: "0 < step" and dvd: "step dvd n" and bound: "n \<le> INT_MAX"
    and body: "\<And>i s. i < n \<Longrightarrow> step dvd i \<Longrightarrow> P i s \<Longrightarrow> \<exists>s'. body i s = Inr s' \<and> P (i + step) s'"
  shows "step dvd i \<Longrightarrow> i \<le> n \<Longrightarrow> P i s \<Longrightarrow> \<exists>s'. for_int step n body i s = Inr s' \<and> P n s'"
proof (induction "n - i" arbitrary: i s rule: less_induct)
  case less
  show ?case
  proof (cases "i < n")
    case False
    with less.prems have "i = n" by simp
    with less.prems show ?thesis by (subst for_int.simps) simp
  next
    case True
    from body [OF True less.prems(1) less.prems(3)] obtain s'
      where s': "body i s = Inr s'" "P (i + step) s'" by blast
    from dvd less.prems(1) obtain a b where ab: "n = step * a" "i = step * b"
      by (auto simp: dvd_def)
    with True step have "b < a" by simp
    then have "Suc b \<le> a" by simp
    then have "step * Suc b \<le> step * a" by (rule mult_le_mono2)
    with ab have le: "i + step \<le> n" by simp
    have d: "step dvd i + step" using less.prems(1) by simp
    have "n - (i + step) < n - i" using True step by simp
    from less.hyps [OF this d le s'(2)] obtain s''
      where "for_int step n body (i + step) s' = Inr s''" "P n s''" by blast
    with True step s'(1) le bound show ?thesis
      by (subst for_int.simps) simp
  qed
qed


subsection \<open>Vector registers\<close>

lemma load_lanes_map:
  "load_lanes w m (elem_addr s i) = map (\<lambda>j. load_float m (elem_addr s j)) [i..<i + w]"
proof (induction w arbitrary: i)
  case 0
  then show ?case by simp
next
  case (Suc w)
  have "[i..<i + Suc w] = i # [Suc i..<Suc i + w]" by (simp add: upt_rec)
  then show ?case using Suc [of "Suc i"] by (simp add: elem_addr_Suc)
qed

lemma store_lanes_elems_set:
  assumes "4 * (i + length xs) \<le> 2 ^ 64" and "\<And>k. k < length xs \<Longrightarrow> xs ! k = g (i + k)"
  shows "store_lanes (elems_set m d i g) (elem_addr d i) xs = elems_set m d (i + length xs) g"
  using assms
proof (induction xs arbitrary: i)
  case Nil
  then show ?case by simp
next
  case (Cons x xs)
  have x: "x = g i" using Cons.prems(2) [of 0] by simp
  have "4 * Suc i \<le> 2 ^ 64" using Cons.prems(1) by simp
  then have st: "store_float (elems_set m d i g) (elem_addr d i) (g i) = elems_set m d (Suc i) g"
    by (rule store_float_elems_set)
  have "store_lanes (elems_set m d (Suc i) g) (elem_addr d (Suc i)) xs =
        elems_set m d (Suc i + length xs) g"
  proof (rule Cons.IH)
    show "4 * (Suc i + length xs) \<le> 2 ^ 64" using Cons.prems(1) by simp
    show "xs ! k = g (Suc i + k)" if "k < length xs" for k
      using Cons.prems(2) [of "Suc k"] that by simp
  qed
  then show ?case by (simp add: x st elem_addr_Suc)
qed

lemma std_fill_store_lanes: "std_fill m p n v = store_lanes m p (replicate n v)"
  by (induction n arbitrary: m p) simp_all

lemma std_fill_elems_set:
  assumes "4 * n \<le> 2 ^ 64"
  shows "std_fill m d n v = elems_set m d n (\<lambda>i. v)"
proof -
  have "store_lanes (elems_set m d 0 (\<lambda>i. v)) (elem_addr d 0) (replicate n v) =
        elems_set m d (0 + length (replicate n v)) (\<lambda>i. v)"
    by (rule store_lanes_elems_set) (use assms in simp_all)
  then show ?thesis by (simp add: std_fill_store_lanes elems_set_0 elem_addr_0)
qed

section \<open>What the operations leave in memory\<close>

lemma source_unchanged:
  assumes "regions_apart d s (4 * n)" and "i \<le> n" and "j < n"
  shows "load_float (elems_set m d i g) (elem_addr s j) = load_float m (elem_addr s j)"
proof (rule load_float_elems_set_out)
  fix b :: nat
  assume "b < 4"
  with assms(3) have "4 * j + b < 4 * n" by simp
  from regions_apart_offset [OF assms(1) this] assms(2)
  show "4 * i \<le> unat (elem_addr s j + of_nat b - d)"
    by (simp only: elem_addr_offset)
qed

lemma int_max_fits: "n \<le> INT_MAX \<Longrightarrow> 4 * (n + 8) \<le> (2::nat) ^ 64"
  by (simp add: INT_MAX_def)

lemma vector_loop:
  assumes w: "0 < w" and dvd: "w dvd n" and bound: "n \<le> INT_MAX"
    and body: "\<And>i. i < n \<Longrightarrow> w dvd i \<Longrightarrow>
       body i (elems_set m d i g) = Inr (store_lanes (elems_set m d i g) (elem_addr d i) (map g [i..<i + w]))"
  shows "for_int w n body 0 m = Inr (elems_set m d n g)"
proof -
  have "\<exists>s'. for_int w n body 0 m = Inr s' \<and> s' = elems_set m d n g"
  proof (rule for_int_rule [where P = "\<lambda>i s. s = elems_set m d i g", OF w dvd bound])
    fix i s
    assume i: "i < n" and di: "w dvd i" and s: "s = elems_set m d i g"
    from dvd di obtain a b where ab: "n = w * a" "i = w * b" by (auto simp: dvd_def)
    with i w have "Suc b \<le> a" by simp
    then have "w * Suc b \<le> w * a" by (rule mult_le_mono2)
    with ab have le: "i + w \<le> n" by simp
    have "4 * (i + length (map g [i..<i + w])) \<le> (2::nat) ^ 64"
      using le int_max_fits [OF bound] by simp
    then have "store_lanes (elems_set m d i g) (elem_addr d i) (map g [i..<i + w]) =
          elems_set m d (i + length (map g [i..<i + w])) g"
      by (rule store_lanes_elems_set) simp
    then show "\<exists>s'. body i s = Inr s' \<and> s' = elems_set m d (i + w) g"
      by (simp add: s body [OF i di])
  qed (simp_all add: elems_set_0)
  then show ?thesis by simp
qed

lemma load_lanes_source:
  assumes "regions_apart d s (4 * n)" and "i + w \<le> n"
  shows "load_lanes w (elems_set m d i g) (elem_addr s i) = map (elem m s) [i..<i + w]"
  unfolding load_lanes_map elem_def
  by (rule map_cong) (use assms in \<open>auto intro!: source_unchanged [where n = n]\<close>)

lemma step_within:
  assumes "0 < w" and "w dvd n" and "w dvd i" and "i < n"
  shows "i + w \<le> (n::nat)"
proof -
  from assms(2,3) obtain a b where ab: "n = w * a" "i = w * b" by (auto simp: dvd_def)
  with assms(1,4) have "Suc b \<le> a" by simp
  then have "w * Suc b \<le> w * a" by (rule mult_le_mono2)
  with ab show ?thesis by simp
qed

subsection \<open>Alignment of the vector accesses\<close>

lemma dvd_16_size: "(16::nat) dvd 2 ^ 64"
proof -
  have "(2::nat) ^ 64 = 16 * 2 ^ 60" by simp
  then show ?thesis by (metis dvd_triv_left)
qed

lemma dvd_32_size: "(32::nat) dvd 2 ^ 64"
proof -
  have "(2::nat) ^ 64 = 32 * 2 ^ 59" by simp
  then show ?thesis by (metis dvd_triv_left)
qed

lemma elem_addr_aligned16:
  assumes "d mod 16 = 0" and "4 dvd i"
  shows "elem_addr d i mod 16 = 0"
proof -
  from assms(2) obtain k where k: "i = 4 * k" by (auto simp: dvd_def)
  have "unat (elem_addr d i mod 16) = unat (d + of_nat (4 * i)) mod 16"
    by (simp add: elem_addr_eq unat_mod)
  also have "unat (d + of_nat (4 * i)) = (unat d + 4 * i) mod 2 ^ 64"
    by (simp only: unat_word_ariths unat_of_nat) (simp add: mod_add_right_eq)
  also have "(unat d + 4 * i) mod 2 ^ 64 mod 16 = (unat d + 4 * i) mod 16"
    by (rule mod_mod_cancel [OF dvd_16_size])
  also have "\<dots> = (unat d mod 16 + 16 * k mod 16) mod 16"
    unfolding k by (simp add: mod_add_eq)
  also have "unat d mod 16 = unat (d mod 16)" by (simp add: unat_mod)
  finally show ?thesis using assms(1) by (simp add: unat_eq_0)
qed

lemma elem_addr_aligned32:
  assumes "d mod 32 = 0" and "8 dvd i"
  shows "elem_addr d i mod 32 = 0"
proof -
  from assms(2) obtain k where k: "i = 8 * k" by (auto simp: dvd_def)
  have "unat (elem_addr d i mod 32) = unat (d + of_nat (4 * i)) mod 32"
    by (simp add: elem_addr_eq unat_mod)
  also have "unat (d + of_nat (4 * i)) = (unat d + 4 * i) mod 2 ^ 64"
    by (simp only: unat_word_ariths unat_of_nat) (simp add: mod_add_right_eq)
  also have "(unat d + 4 * i) mod 2 ^ 64 mod 32 = (unat d + 4 * i) mod 32"
    by (rule mod_mod_cancel [OF dvd_32_size])
  also have "\<dots> = (unat d mod 32 + 32 * k mod 32) mod 32"
    unfolding k by (simp add: mod_add_eq)
  also have "unat d mod 32 = unat (d mod 32)" by (simp add: unat_mod)
  finally show ?thesis using assms(1) by (simp add: unat_eq_0)
qed

subsection \<open>The copy operations\<close>

lemma UnalignedSseCopy_result:
  assumes "4 dvd unat n" and "unat n \<le> INT_MAX" and "regions_apart d s (4 * unat n)"
  shows "UnalignedSseCopy n d s m = Inr (elems_set m d (unat n) (elem m s))"
  unfolding UnalignedSseCopy_def
  by (rule vector_loop [OF _ assms(1,2)])
     (simp_all add: mm_loadu_ps_def mm_storeu_ps_def and_then_def
        load_lanes_source [OF assms(3)] step_within [OF _ assms(1)])

lemma AlignedSseCopy_result:
  assumes "4 dvd unat n" and "unat n \<le> INT_MAX" and "regions_apart d s (4 * unat n)"
    and "d mod 16 = 0" and "s mod 16 = 0"
  shows "AlignedSseCopy n d s m = Inr (elems_set m d (unat n) (elem m s))"
  unfolding AlignedSseCopy_def
  by (rule vector_loop [OF _ assms(1,2)])
     (simp_all add: mm_load_ps_def mm_store_ps_def and_then_def
        load_lanes_source [OF assms(3)] step_within [OF _ assms(1)]
        elem_addr_aligned16 [OF assms(4)] elem_addr_aligned16 [OF assms(5)])

lemma AlignedSseNonTemporalCopy_result:
  assumes "4 dvd unat n" and "unat n \<le> INT_MAX" and "regions_apart d s (4 * unat n)"
    and "d mod 16 = 0" and "s mod 16 = 0"
  shows "AlignedSseNonTemporalCopy n d s m = Inr (elems_set m d (unat n) (elem m s))"
  unfolding AlignedSseNonTemporalCopy_def
  by (rule vector_loop [OF _ assms(1,2)])
     (simp_all add: mm_load_ps_def mm_stream_ps_def and_then_def
        load_lanes_source [OF assms(3)] step_within [OF _ assms(1)]
        elem_addr_aligned16 [OF assms(4)] elem_addr_aligned16 [OF assms(5)])

lemma UnalignedAvxCopy_result:
  assumes "8 dvd unat n" and "unat n \<le> INT_MAX" and "regions_apart d s (4 * unat n)"
  shows "UnalignedAvxCopy n d s m = Inr (elems_set m d (unat n) (elem m s))"
  unfolding UnalignedAvxCopy_def
  by (rule vector_loop [OF _ assms(1,2)])
     (simp_all add: mm256_loadu_ps_def mm256_storeu_ps_def and_then_def
        load_lanes_source [OF assms(3)] step_within [OF _ assms(1)])

lemma AlignedAvxCopy_result:
  assumes "8 dvd unat n" and "unat n \<le> INT_MAX" and "regions_apart d s (4 * unat n)"
    and "d mod 32 = 0" and "s mod 32 = 0"
  shows "AlignedAvxCopy n d s m = Inr (elems_set m d (unat n) (elem m s))"
  unfolding AlignedAvxCopy_def
  by (rule vector_loop [OF _ assms(1,2)])
     (simp_all add: mm256_load_ps_def mm256_store_ps_def and_then_def
        load_lanes_source [OF assms(3)] step_within [OF _ assms(1)]
        elem_addr_aligned32 [OF assms(4)] elem_addr_aligned32 [OF assms(5)])

lemma AlignedAvxNonTemporalCopy_result:
  assumes "8 dvd unat n" and "unat n \<le> INT_MAX" and "regions_apart d s (4 * unat n)"
    and "d mod 32 = 0" and "s mod 32 = 0"
  shows "AlignedAvxNonTemporalCopy n d s m = Inr (elems_set m d (unat n) (elem m s))"
  unfolding AlignedAvxNonTemporalCopy_def
  by (rule vector_loop [OF _ assms(1,2)])
     (simp_all add: mm256_load_ps_def mm256_stream_ps_def and_then_def
        load_lanes_source [OF assms(3)] step_within [OF _ assms(1)]
        elem_addr_aligned32 [OF assms(4)] elem_addr_aligned32 [OF assms(5)])

lemma SimpleCopy_result:
  assumes "unat n \<le> INT_MAX" and "regions_apart d s (4 * unat n)"
  shows "SimpleCopy n d s m = Inr (elems_set m d (unat n) (elem m s))"
proof -
  let ?P = "\<lambda>i (st :: mem \<times> size_t \<times> size_t).
     st = (elems_set m d i (elem m s), elem_addr d i, elem_addr s i)"
  have "\<exists>st. for_int 1 (unat n)
          (\<lambda>i (m, d, s). Inr (store_float m d (load_float m s), d + 4, s + 4)) 0 (m, d, s) = Inr st
        \<and> ?P (unat n) st"
  proof (rule for_int_rule [where P = ?P, OF _ _ assms(1)])
    fix i and st :: "mem \<times> size_t \<times> size_t"
    assume i: "i < unat n" and st: "?P i st"
    have "load_float (elems_set m d i (elem m s)) (elem_addr s i) = elem m s i"
      unfolding elem_def by (rule source_unchanged [OF assms(2)]) (use i in simp_all)
    moreover have "4 * Suc i \<le> (2::nat) ^ 64"
      using i int_max_fits [OF assms(1)] by simp
    then have "store_float (elems_set m d i (elem m s)) (elem_addr d i) (elem m s i) =
        elems_set m d (Suc i) (elem m s)"
      by (rule store_float_elems_set)
    ultimately show "\<exists>st'. (case st of (m, d, s) \<Rightarrow> Inr (store_float m d (load_float m s), d + 4, s + 4)) = Inr st'
        \<and> ?P (i + 1) st'"
      by (simp add: st elem_addr_Suc)
  qed (simp_all add: elems_set_0 elem_addr_0)
  then show ?thesis by (auto simp: SimpleCopy_def and_then_def)
qed

lemma std_copy_elems_set:
  assumes "regions_apart d s (4 * n)" and "4 * n \<le> 2 ^ 64"
  shows "i + k \<le> n \<Longrightarrow>
    std_copy (elems_set m d i (elem m s)) (elem_addr s i) k (elem_addr d i) =
      elems_set m d (i + k) (elem m s)"
proof (induction k arbitrary: i)
  case 0
  then show ?case by simp
next
  case (Suc k)
  have "load_float (elems_set m d i (elem m s)) (elem_addr s i) = elem m s i"
    unfolding elem_def by (rule source_unchanged [OF assms(1)]) (use Suc.prems in simp_all)
  moreover have "4 * Suc i \<le> (2::nat) ^ 64" using Suc.prems assms(2) by simp
  then have "store_float (elems_set m d i (elem m s)) (elem_addr d i) (elem m s i) =
      elems_set m d (Suc i) (elem m s)"
    by (rule store_float_elems_set)
  ultimately show ?case using Suc.IH [of "Suc i"] Suc.prems by (simp add: elem_addr_Suc)
qed

lemma StdCopy_result:
  assumes "regions_apart d s (4 * unat n)"
  shows "StdCopy n d s m = Inr (elems_set m d (unat n) (elem m s))"
proof (cases "unat n = 0")
  case True
  then show ?thesis by (simp add: StdCopy_def elems_set_0)
next
  case False
  then have "2 * (4 * unat n) \<le> 2 ^ 64" by (intro regions_apart_size [OF assms]) simp
  then have "4 * unat n \<le> 2 ^ 64" by simp
  from std_copy_elems_set [OF assms this, of 0 "unat n" m]
  show ?thesis by (simp add: StdCopy_def elems_set_0 elem_addr_0)
qed

lemma MemCopy_result:
  assumes "4 * unat n < 2 ^ 64"
  shows "MemCopy n d s m = Inr (elems_set m d (unat n) (elem m s))"
proof -
  have len: "unat (n * 4) = 4 * unat n"
    using assms by (simp add: unat_word_ariths)
  have "memcpy m d s (n * 4) x = elems_set m d (unat n) (elem m s) x" for x
  proof -
    define k where "k = unat (x - d)"
    have lt: "x - d < n * 4 \<longleftrightarrow> k < 4 * unat n"
      by (simp add: word_less_nat_alt len k_def)
    have "elem_addr s (k div 4) + of_nat (k mod 4) = s + of_nat k"
      by (simp only: elem_addr_offset) simp
    also have "of_nat k = x - d" by (simp add: k_def)
    finally have "float_byte (elem m s (k div 4)) (k mod 4) = m (s + (x - d))"
      by (simp add: elem_def float_byte_load)
    then show ?thesis
      by (simp add: memcpy_def elems_set_def lt k_def [symmetric])
  qed
  then show ?thesis by (auto simp: MemCopy_def)
qed

subsection \<open>The multiply operations\<close>

text \<open>Element \<open>i\<close> of the product of the arrays at \<open>a\<close> and \<open>b\<close>.\<close>

lemma mul_lanes:
  "mm_mul_ps fmul (map (elem m a) [i..<i + w]) (map (elem m b) [i..<i + w]) =
     map (\<lambda>j. fmul (elem m a j) (elem m b j)) [i..<i + w]"
  by (simp add: mm_mul_ps_def map2_map_map)

lemma UnalignedSseMult_result:
  assumes "4 dvd unat n" and "unat n \<le> INT_MAX"
    and "regions_apart d a (4 * unat n)" and "regions_apart d b (4 * unat n)"
  shows "UnalignedSseMult fmul n d a b m =
           Inr (elems_set m d (unat n) (\<lambda>j. fmul (elem m a j) (elem m b j)))"
  unfolding UnalignedSseMult_def
  by (rule vector_loop [OF _ assms(1,2)])
     (simp_all add: mm_loadu_ps_def mm_storeu_ps_def and_then_def mul_lanes
        load_lanes_source [OF assms(3)] load_lanes_source [OF assms(4)]
        step_within [OF _ assms(1)])

lemma AlignedSseMult_result:
  assumes "4 dvd unat n" and "unat n \<le> INT_MAX"
    and "regions_apart d a (4 * unat n)" and "regions_apart d b (4 * unat n)"
    and "d mod 16 = 0" and "a mod 16 = 0" and "b mod 16 = 0"
  shows "AlignedSseMult fmul n d a b m =
           Inr (elems_set m d (unat n) (\<lambda>j. fmul (elem m a j) (elem m b j)))"
  unfolding AlignedSseMult_def
  by (rule vector_loop [OF _ assms(1,2)])
     (simp_all add: mm_load_ps_def mm_store_ps_def and_then_def mul_lanes
        load_lanes_source [OF assms(3)] load_lanes_source [OF assms(4)]
        step_within [OF _ assms(1)]
        elem_addr_aligned16 [OF assms(5)] elem_addr_aligned16 [OF assms(6)] elem_addr_aligned16 [OF assms(7)])

lemma AlignedSseNonTemporalMult_result:
  assumes "4 dvd unat n" and "unat n \<le> INT_MAX"
    and "regions_apart d a (4 * unat n)" and "regions_apart d b (4 * unat n)"
    and "d mod 16 = 0" and "a mod 16 = 0" and "b mod 16 = 0"
  shows "AlignedSseNonTemporalMult fmul n d a b m =
           Inr (elems_set m d (unat n) (\<lambda>j. fmul (elem m a j) (elem m b j)))"
  unfolding AlignedSseNonTemporalMult_def
  by (rule vector_loop [OF _ assms(1,2)])
     (simp_all add: mm_load_ps_def mm_stream_ps_def and_then_def mul_lanes
        load_lanes_source [OF assms(3)] load_lanes_source [OF assms(4)]
        step_within [OF _ assms(1)]
        elem_addr_aligned16 [OF assms(5)] elem_addr_aligned16 [OF assms(6)] elem_addr_aligned16 [OF assms(7)])

lemma UnalignedAvxMult_result:
  assumes "8 dvd unat n" and "unat n \<le> INT_MAX"
    and "regions_apart d a (4 * unat n)" and "regions_apart d b (4 * unat n)"
  shows "UnalignedAvxMult fmul n d a b m =
           Inr (elems_set m d (unat n) (\<lambda>j. fmul (elem m a j) (elem m b j)))"
  unfolding UnalignedAvxMult_def
  by (rule vector_loop [OF _ assms(1,2)])
     (simp_all add: mm256_loadu_ps_def mm256_storeu_ps_def and_then_def mul_lanes
        load_lanes_source [OF assms(3)] load_lanes_source [OF assms(4)]
        step_within [OF _ assms(1)])

lemma AlignedAvxMult_result:
  assumes "8 dvd unat n" and "unat n \<le> INT_MAX"
    and "regions_apart d a (4 * unat n)" and "regions_apart d b (4 * unat n)"
    and "d mod 32 = 0" and "a mod 32 = 0" and "b mod 32 = 0"
  shows "AlignedAvxMult fmul n d a b m =
           Inr (elems_set m d (unat n) (\<lambda>j. fmul (elem m a j) (elem m b j)))"
  unfolding AlignedAvxMult_def
  by (rule vector_loop [OF _ assms(1,2)])
     (simp_all add: mm256_load_ps_def mm256_store_ps_def and_then_def mul_lanes
        load_lanes_source [OF assms(3)] load_lanes_source [OF assms(4)]
        step_within [OF _ assms(1)]
        elem_addr_aligned32 [OF assms(5)] elem_addr_aligned32 [OF assms(6)] elem_addr_aligned32 [OF assms(7)])

lemma AlignedAvxNonTemporalMult_result:
  assumes "8 dvd unat n" and "unat n \<le> INT_MAX"
    and "regions_apart d a (4 * unat n)" and "regions_apart d b (4 * unat n)"
    and "d mod 32 = 0" and "a mod 32 = 0" and "b mod 32 = 0"
  shows "AlignedAvxNonTemporalMult fmul n d a b m =
           Inr (elems_set m d (unat n) (\<lambda>j. fmul (elem m a j) (elem m b j)))"
  unfolding AlignedAvxNonTemporalMult_def
  by (rule vector_loop [OF _ assms(1,2)])
     (simp_all add: mm256_load_ps_def mm256_stream_ps_def and_then_def mul_lanes
        load_lanes_source [OF assms(3)] load_lanes_source [OF assms(4)]
        step_within [OF _ assms(1)]
        elem_addr_aligned32 [OF assms(5)] elem_addr_aligned32 [OF assms(6)] elem_addr_aligned32 [OF assms(7)])

lemma NiaveMult_result:
  assumes "unat n \<le> INT_MAX"
    and "regions_apart d a (4 * unat n)" and "regions_apart d b (4 * unat n)"
  shows "NiaveMult fmul n d a b m =
           Inr (elems_set m d (unat n) (\<lambda>j. fmul (elem m a j) (elem m b j)))"
proof -
  let ?g = "\<lambda>j. fmul (elem m a j) (elem m b j)"
  let ?P = "\<lambda>i (st :: mem \<times> size_t \<times> size_t \<times> size_t).
     st = (elems_set m d i ?g, elem_addr d i, elem_addr a i, elem_addr b i)"
  have "\<exists>st. for_int 1 (unat n)
          (\<lambda>i (m, d, a, b).
             Inr (store_float m d (fmul (load_float m a) (load_float m b)), d + 4, a + 4, b + 4))
          0 (m, d, a, b) = Inr st
        \<and> ?P (unat n) st"
  proof (rule for_int_rule [where P = ?P, OF _ _ assms(1)])
    fix i and st :: "mem \<times> size_t \<times> size_t \<times> size_t"
    assume i: "i < unat n" and st: "?P i st"
    have "load_float (elems_set m d i ?g) (elem_addr a i) = elem m a i"
      unfolding elem_def by (rule source_unchanged [OF assms(2)]) (use i in simp_all)
    moreover have "load_float (elems_set m d i ?g) (elem_addr b i) = elem m b i"
      unfolding elem_def by (rule source_unchanged [OF assms(3)]) (use i in simp_all)
    moreover have "4 * Suc i \<le> (2::nat) ^ 64"
      using i int_max_fits [OF assms(1)] by simp
    then have "store_float (elems_set m d i ?g) (elem_addr d i) (?g i) = elems_set m d (Suc i) ?g"
      by (rule store_float_elems_set)
    ultimately show "\<exists>st'. (case st of (m, d, a, b) \<Rightarrow>
           Inr (store_float m d (fmul (load_float m a) (load_float m b)), d + 4, a + 4, b + 4)) = Inr st'
        \<and> ?P (i + 1) st'"
      by (simp add: st elem_addr_Suc)
  qed (simp_all add: elems_set_0 elem_addr_0)
  then show ?thesis by (auto simp: NiaveMult_def and_then_def)
qed

section \<open>The operation contract\<close>

lemma regions_apart_fits:
  assumes "regions_apart d s (4 * n)"
  shows "4 * n < 2 ^ 64"
proof (cases "n = 0")
  case True
  then show ?thesis by simp
next
  case False
  then have "2 * (4 * n) \<le> 2 ^ 64" by (intro regions_apart_size [OF assms]) simp
  then show ?thesis by simp
qed

lemma copy_variant_result:
  assumes "v \<in> set copy_variants" and "fits v n" and "aligned_for v d" and "aligned_for v s"
    and "regions_apart d s (4 * unat n)"
  shows "op_call v n d s m = Inr (elems_set m d (unat n) (elem m s))"
proof -
  note r = assms(5)
  from assms(1) consider
      "v = \<lparr>op_call = MemCopy, op_step = 1, op_align = 1, op_int = False\<rparr>"
    | "v = \<lparr>op_call = StdCopy, op_step = 1, op_align = 1, op_int = False\<rparr>"
    | "v = \<lparr>op_call = SimpleCopy, op_step = 1, op_align = 1, op_int = True\<rparr>"
    | "v = \<lparr>op_call = UnalignedSseCopy, op_step = 4, op_align = 1, op_int = True\<rparr>"
    | "v = \<lparr>op_call = UnalignedAvxCopy, op_step = 8, op_align = 1, op_int = True\<rparr>"
    | "v = \<lparr>op_call = AlignedSseCopy, op_step = 4, op_align = 16, op_int = True\<rparr>"
    | "v = \<lparr>op_call = AlignedSseNonTemporalCopy, op_step = 4, op_align = 16, op_int = True\<rparr>"
    | "v = \<lparr>op_call = AlignedAvxCopy, op_step = 8, op_align = 32, op_int = True\<rparr>"
    | "v = \<lparr>op_call = AlignedAvxNonTemporalCopy, op_step = 8, op_align = 32, op_int = True\<rparr>"
    unfolding copy_variants_def by auto
  then show ?thesis
  proof cases
    case 1
    then show ?thesis using MemCopy_result [OF regions_apart_fits [OF r]] by simp
  next
    case 2
    then show ?thesis using StdCopy_result [OF r] by simp
  next
    case 3
    then show ?thesis using assms(2) SimpleCopy_result [OF _ r] by (simp add: fits_def)
  next
    case 4
    then show ?thesis using assms(2) UnalignedSseCopy_result [OF _ _ r] by (simp add: fits_def)
  next
    case 5
    then show ?thesis using assms(2) UnalignedAvxCopy_result [OF _ _ r] by (simp add: fits_def)
  next
    case 6
    then show ?thesis using assms(2,3,4) AlignedSseCopy_result [OF _ _ r]
      by (simp add: fits_def aligned_for_def)
  next
    case 7
    then show ?thesis using assms(2,3,4) AlignedSseNonTemporalCopy_result [OF _ _ r]
      by (simp add: fits_def aligned_for_def)
  next
    case 8
    then show ?thesis using assms(2,3,4) AlignedAvxCopy_result [OF _ _ r]
      by (simp add: fits_def aligned_for_def)
  next
    case 9
    then show ?thesis using assms(2,3,4) AlignedAvxNonTemporalCopy_result [OF _ _ r]
      by (simp add: fits_def aligned_for_def)
  qed
qed

lemma mult_variant_result:
  assumes "v \<in> set mult_variants" and "fits v n"
    and "aligned_for v d" and "aligned_for v a" and "aligned_for v b"
    and "regions_apart d a (4 * unat n)" and "regions_apart d b (4 * unat n)"
  shows "op_call v fmul n d a b m =
           Inr (elems_set m d (unat n) (\<lambda>j. fmul (elem m a j) (elem m b j)))"
proof -
  note ra = assms(6) and rb = assms(7)
  from assms(1) consider
      "v = \<lparr>op_call = NiaveMult, op_step = 1, op_align = 1, op_int = True\<rparr>"
    | "v = \<lparr>op_call = UnalignedSseMult, op_step = 4, op_align = 1, op_int = True\<rparr>"
    | "v = \<lparr>op_call = UnalignedAvxMult, op_step = 8, op_align = 1, op_int = True\<rparr>"
    | "v = \<lparr>op_call = AlignedSseMult, op_step = 4, op_align = 16, op_int = True\<rparr>"
    | "v = \<lparr>op_call = AlignedSseNonTemporalMult, op_step = 4, op_align = 16, op_int = True\<rparr>"
    | "v = \<lparr>op_call = AlignedAvxMult, op_step = 8, op_align = 32, op_int = True\<rparr>"
    | "v = \<lparr>op_call = AlignedAvxNonTemporalMult, op_step = 8, op_align = 32, op_int = True\<rparr>"
    unfolding mult_variants_def by auto
  then show ?thesis
  proof cases
    case 1
    then show ?thesis using assms(2) NiaveMult_result [OF _ ra rb] by (simp add: fits_def)
  next
    case 2
    then show ?thesis using assms(2) UnalignedSseMult_result [OF _ _ ra rb] by (simp add: fits_def)
  next
    case 3
    then show ?thesis using assms(2) UnalignedAvxMult_result [OF _ _ ra rb] by (simp add: fits_def)
  next
    case 4
    then show ?thesis using assms(2,3,4,5) AlignedSseMult_result [OF _ _ ra rb]
      by (simp add: fits_def aligned_for_def)
  next
    case 5
    then show ?thesis using assms(2,3,4,5) AlignedSseNonTemporalMult_result [OF _ _ ra rb]
      by (simp add: fits_def aligned_for_def)
  next
    case 6
    then show ?thesis using assms(2,3,4,5) AlignedAvxMult_result [OF _ _ ra rb]
      by (simp add: fits_def aligned_for_def)
  next
    case 7
    then show ?thesis using assms(2,3,4,5) AlignedAvxNonTemporalMult_result [OF _ _ ra rb]
      by (simp add: fits_def aligned_for_def)
  qed
qed

lemma elem_elems_set:
  assumes "i < n" and "4 * n < 2 ^ 64"
  shows "elem (elems_set m d n g) d i = g i"
  unfolding elem_def by (rule load_float_elems_set_in) (use assms in simp_all)

lemma elem_source_after:
  assumes "regions_apart d s (4 * n)" and "i < n"
  shows "elem (elems_set m d n g) s i = elem m s i"
  unfolding elem_def by (rule source_unchanged [OF assms(1)]) (use assms(2) in simp_all)


subsection \<open>The claims about the operations\<close>

lemma ones_mem_eq: "ones_mem = elems_set zero_mem 0x1000 8 (\<lambda>i. 0x3F800000)"
  unfolding ones_mem_def by (rule std_fill_elems_set) simp

lemma load_float_zero_mem: "load_float zero_mem p = 0"
  by (simp add: load_float_def bytes_float_def zero_mem_def)

lemma elem_ones_mem_source: "i < 8 \<Longrightarrow> elem ones_mem 0x1000 i = 0x3F800000"
  unfolding ones_mem_eq by (rule elem_elems_set) simp_all

lemma elem_ones_mem_dest: "i < 8 \<Longrightarrow> elem ones_mem 0x2000 i = 0"
proof -
  assume i: "i < 8"
  have "regions_apart 0x1000 0x2000 (4 * 8)" by (simp add: regions_apart_def)
  from elem_source_after [OF this i, of zero_mem "\<lambda>i. 0x3F800000"]
  show ?thesis by (simp add: ones_mem_eq elem_def load_float_zero_mem)
qed

text \<open>
  C7 (as the code has it). Each variant, called on a destination region that does not
  meet the source region(s), with pointers aligned as its vector accesses need, for a
  working-set size \<open>n\<close> that is a multiple of its step and (where the counter is an
  \<^verbatim>\<open>int\<close>) at most \<open>INT_MAX\<close>, returns normally, leaves \<open>dst[i] = expected i\<close> for every
  \<open>i < n\<close> and leaves every byte outside \<open>dst[0..n)\<close> as it was.
\<close>

theorem operation_writes_exactly_the_working_set:
  "(\<forall>v\<in>set copy_variants.
      fits v n \<and> aligned_for v d \<and> aligned_for v s \<and> regions_apart d s (4 * unat n) \<longrightarrow>
      (\<exists>m'. op_call v n d s m = Inr m' \<and> (\<forall>i<unat n. elem m' d i = elem m s i) \<and>
            (\<forall>x. 4 * unat n \<le> unat (x - d) \<longrightarrow> m' x = m x))) \<and>
   (\<forall>v\<in>set mult_variants.
      fits v n \<and> aligned_for v d \<and> aligned_for v a \<and> aligned_for v b \<and>
      regions_apart d a (4 * unat n) \<and> regions_apart d b (4 * unat n) \<longrightarrow>
      (\<exists>m'. op_call v fmul n d a b m = Inr m' \<and>
            (\<forall>i<unat n. elem m' d i = fmul (elem m a i) (elem m b i)) \<and>
            (\<forall>x. 4 * unat n \<le> unat (x - d) \<longrightarrow> m' x = m x)))"
proof (intro conjI ballI impI)
  fix v :: "(size_t \<Rightarrow> size_t \<Rightarrow> size_t \<Rightarrow> mem \<Rightarrow> abort + mem) variant"
  assume v: "v \<in> set copy_variants"
    and h: "fits v n \<and> aligned_for v d \<and> aligned_for v s \<and> regions_apart d s (4 * unat n)"
  then have r: "op_call v n d s m = Inr (elems_set m d (unat n) (elem m s))"
    by (intro copy_variant_result) simp_all
  have lt: "4 * unat n < 2 ^ 64" using h regions_apart_fits [of d s "unat n"] by simp
  show "\<exists>m'. op_call v n d s m = Inr m' \<and> (\<forall>i<unat n. elem m' d i = elem m s i) \<and>
            (\<forall>x. 4 * unat n \<le> unat (x - d) \<longrightarrow> m' x = m x)"
    using r lt by (simp add: elem_elems_set elems_set_outside)
next
  fix v :: "((float \<Rightarrow> float \<Rightarrow> float) \<Rightarrow> size_t \<Rightarrow> size_t \<Rightarrow> size_t \<Rightarrow> size_t \<Rightarrow> mem \<Rightarrow> abort + mem) variant"
  assume v: "v \<in> set mult_variants"
    and h: "fits v n \<and> aligned_for v d \<and> aligned_for v a \<and> aligned_for v b \<and>
      regions_apart d a (4 * unat n) \<and> regions_apart d b (4 * unat n)"
  then have r: "op_call v fmul n d a b m =
      Inr (elems_set m d (unat n) (\<lambda>j. fmul (elem m a j) (elem m b j)))"
    by (intro mult_variant_result) simp_all
  have lt: "4 * unat n < 2 ^ 64" using h regions_apart_fits [of d a "unat n"] by simp
  show "\<exists>m'. op_call v fmul n d a b m = Inr m' \<and>
            (\<forall>i<unat n. elem m' d i = fmul (elem m a i) (elem m b i)) \<and>
            (\<forall>x. 4 * unat n \<le> unat (x - d) \<longrightarrow> m' x = m x)"
    using r lt by (simp add: elem_elems_set elems_set_outside)
qed

theorem operation_writes_exactly_the_working_set_witness:
  "regions_apart 0x2000 0x1000 (4 * unat (4::size_t)) \<and>
   regions_apart 0x2000 0x1010 (4 * unat (4::size_t)) \<and>
   (\<exists>m'. AlignedSseCopy 4 0x2000 0x1000 ones_mem = Inr m' \<and> elem m' 0x2000 3 = 0x3F800000 \<and>
         m' 0x2010 = ones_mem 0x2010) \<and>
   (\<exists>m'. UnalignedAvxMult test_fmul 8 0x2000 0x1000 0x1000 ones_mem = Inr m' \<and>
         elem m' 0x2000 7 = 0x3F800000)"
proof -
  let ?c = "\<lparr>op_call = AlignedSseCopy, op_step = 4, op_align = 16, op_int = True\<rparr>"
  let ?x = "\<lparr>op_call = UnalignedAvxMult, op_step = 8, op_align = 1, op_int = True\<rparr>"
  have c: "?c \<in> set copy_variants" by (simp add: copy_variants_def)
  have x: "?x \<in> set mult_variants" by (simp add: mult_variants_def)
  have r: "regions_apart 0x2000 0x1000 (4 * unat (4::size_t))"
    "regions_apart 0x2000 0x1010 (4 * unat (4::size_t))"
    "regions_apart 0x2000 0x1000 (4 * unat (8::size_t))"
    by (simp_all add: regions_apart_def)
  have hc: "fits ?c 4 \<and> aligned_for ?c 0x2000 \<and> aligned_for ?c 0x1000 \<and>
      regions_apart 0x2000 0x1000 (4 * unat (4::size_t))"
    using r by (simp add: fits_def aligned_for_def INT_MAX_def)
  have hx: "fits ?x 8 \<and> aligned_for ?x 0x2000 \<and> aligned_for ?x 0x1000 \<and> aligned_for ?x 0x1000 \<and>
      regions_apart 0x2000 0x1000 (4 * unat (8::size_t)) \<and>
      regions_apart 0x2000 0x1000 (4 * unat (8::size_t))"
    using r by (simp add: fits_def aligned_for_def INT_MAX_def)
  from operation_writes_exactly_the_working_set
         [where n = 4 and d = "0x2000" and s = "0x1000" and m = ones_mem]
  have "\<exists>m'. op_call ?c 4 0x2000 0x1000 ones_mem = Inr m' \<and>
          (\<forall>i<unat (4::size_t). elem m' 0x2000 i = elem ones_mem 0x1000 i) \<and>
          (\<forall>x. 4 * unat (4::size_t) \<le> unat (x - 0x2000) \<longrightarrow> m' x = ones_mem x)"
    using c hc by blast
  then obtain m1 where m1: "AlignedSseCopy 4 0x2000 0x1000 ones_mem = Inr m1"
    "\<forall>i<unat (4::size_t). elem m1 0x2000 i = elem ones_mem 0x1000 i"
    "\<forall>x. 4 * unat (4::size_t) \<le> unat (x - 0x2000) \<longrightarrow> m1 x = ones_mem x"
    by auto
  from m1(2) have a: "elem m1 0x2000 3 = 0x3F800000" by (simp add: elem_ones_mem_source)
  from m1(3) have b: "m1 0x2010 = ones_mem 0x2010" by simp
  from operation_writes_exactly_the_working_set
         [where n = 8 and d = "0x2000" and a = "0x1000" and b = "0x1000" and fmul = test_fmul
            and m = ones_mem]
  have "\<exists>m'. op_call ?x test_fmul 8 0x2000 0x1000 0x1000 ones_mem = Inr m' \<and>
          (\<forall>i<unat (8::size_t). elem m' 0x2000 i =
              test_fmul (elem ones_mem 0x1000 i) (elem ones_mem 0x1000 i)) \<and>
          (\<forall>x. 4 * unat (8::size_t) \<le> unat (x - 0x2000) \<longrightarrow> m' x = ones_mem x)"
    using x hx by blast
  then obtain m2 where m2: "UnalignedAvxMult test_fmul 8 0x2000 0x1000 0x1000 ones_mem = Inr m2"
    "\<forall>i<unat (8::size_t). elem m2 0x2000 i =
        test_fmul (elem ones_mem 0x1000 i) (elem ones_mem 0x1000 i)"
    by auto
  from m2(2) have "elem m2 0x2000 7 = 0x3F800000"
    by (simp add: elem_ones_mem_source test_fmul_def)
  with m1(1) a b m2(1) r show ?thesis by blast
qed

text \<open>
  C7 as the spec states it fails for a working-set size that is not a multiple of the
  step: \<open>UnalignedSseCopy\<close> with \<open>gNumFloats = 5\<close> writes eight elements, so element 5 of
  the destination, which was 0, becomes 1.0.
\<close>

theorem sse_copy_writes_past_five_counterexample:
  "regions_apart 0x2000 0x1000 (4 * 8) \<and>
   UnalignedSseCopy 5 0x2000 0x1000 ones_mem =
     Inr (elems_set ones_mem 0x2000 8 (elem ones_mem 0x1000)) \<and>
   elem ones_mem 0x2000 5 = 0 \<and>
   elem (elems_set ones_mem 0x2000 8 (elem ones_mem 0x1000)) 0x2000 5 = 0x3F800000"
proof -
  have r: "regions_apart 0x2000 0x1000 (4 * unat (8::size_t))" by (simp add: regions_apart_def)
  have "UnalignedSseCopy 5 0x2000 0x1000 ones_mem = UnalignedSseCopy 8 0x2000 0x1000 ones_mem"
    by (simp add: UnalignedSseCopy_def for_int.simps INT_MAX_def and_then_def
          mm_loadu_ps_def mm_storeu_ps_def)
  also have "\<dots> = Inr (elems_set ones_mem 0x2000 (unat (8::size_t)) (elem ones_mem 0x1000))"
    by (rule UnalignedSseCopy_result [OF _ _ r]) (simp_all add: INT_MAX_def)
  finally have a: "UnalignedSseCopy 5 0x2000 0x1000 ones_mem =
     Inr (elems_set ones_mem 0x2000 8 (elem ones_mem 0x1000))" by simp
  have "elem (elems_set ones_mem 0x2000 8 (elem ones_mem 0x1000)) 0x2000 5 = elem ones_mem 0x1000 5"
    by (rule elem_elems_set) simp_all
  then have b: "elem (elems_set ones_mem 0x2000 8 (elem ones_mem 0x1000)) 0x2000 5 = 0x3F800000"
    by (simp add: elem_ones_mem_source)
  show ?thesis using r a b by (simp add: elem_ones_mem_dest)
qed










section \<open>The executor\<close>


lemma verify_loop_passes:
  assumes "\<And>j. j < n \<Longrightarrow> \<not> float_ne (actual j) (expected j)"
  shows "verify_loop actual expected n k = None"
proof (induction "n - k" arbitrary: k)
  case 0
  then show ?case by (subst verify_loop.simps) simp
next
  case (Suc x)
  then have "k < n" by simp
  moreover have "verify_loop actual expected n (k + 1) = None"
    using Suc.hyps(1) [of "k + 1"] Suc.hyps(2) by simp
  ultimately show ?case using assms by (subst verify_loop.simps) simp
qed


lemma timed_and_verified_passes:
  assumes "run_loop call (gTotalFloats g) (gNumFloats g) 0 (mem w) = Some (Inr m')"
    and "\<And>j. j < unat (gNumFloats g) \<Longrightarrow> \<not> float_ne (actual m' j) (expected m' j)"
  shows "timed_and_verified call actual expected g time name alignment w =
           Some (Continue (w\<lparr>mem := m', cout := cout w @ [ColumnTime time],
              cerr := cerr w @ [Took name alignment time]\<rparr>))"
proof -
  have "verify_loop (actual m') (expected m') (unat (gNumFloats g)) 0 = None"
    by (rule verify_loop_passes [where actual = "actual m'" and expected = "expected m'"])
       (simp add: assms(2))
  then show ?thesis
    by (simp add: timed_and_verified_def assms(1) print_cerr_def print_cout_def)
qed



lemma copy_Run_passes:
  assumes "align d alignment = Some d'" and "align s alignment = Some s'"
    and "run_loop (f (gNumFloats g) d' s') (gTotalFloats g) (gNumFloats g) 0
           (std_fill (mem w) d' (unat (gNumFloats g)) 0) = Some (Inr m')"
    and "\<And>j. j < unat (gNumFloats g) \<Longrightarrow> \<not> float_ne (elem m' d' j) (elem m' s' j)"
  shows "copy_Run g clock f name alignment d s w =
           Some (Continue (w\<lparr>mem := m', cout := cout w @ [ColumnTime (clock name alignment)],
              cerr := cerr w @ [Took name alignment (clock name alignment)]\<rparr>))"
proof -
  let ?w = "w\<lparr>mem := std_fill (mem w) d' (unat (gNumFloats g)) 0\<rparr>"
  have "timed_and_verified (f (gNumFloats g) d' s') (\<lambda>m. elem m d') (\<lambda>m. elem m s')
          g (clock name alignment) name alignment ?w =
        Some (Continue (?w\<lparr>mem := m', cout := cout ?w @ [ColumnTime (clock name alignment)],
              cerr := cerr ?w @ [Took name alignment (clock name alignment)]\<rparr>))"
    by (rule timed_and_verified_passes) (simp_all add: assms)
  then show ?thesis by (simp add: copy_Run_def assms(1,2))
qed

section \<open>The claims about the executor and the drivers\<close>


lemma float_ne_zero_zero: "\<not> float_ne 0 0"
  by (simp add: float_ne_def is_nan_def)















lemma repeat_op_null_copy: "repeat_op k (NullCopy n d s) m = Inr m"
  by (induction k) (simp_all add: NullCopy_def)

lemma copy_Run_null_on_source:
  assumes "alignment < 256" and "0 < gNumFloats g" and "gNumFloats g \<le> gTotalFloats g"
    and "((unat (gTotalFloats g) + unat (gNumFloats g) - 1) div unat (gNumFloats g))
           * unat (gNumFloats g) < 2 ^ 64"
    and "4 * unat (gNumFloats g) < 2 ^ 64"
  shows "copy_Run g clock NullCopy name alignment p p w =
     Some (Continue (w\<lparr>mem := std_fill (mem w) (p + of_nat (align_steps p alignment))
                                (unat (gNumFloats g)) 0,
        cout := cout w @ [ColumnTime (clock name alignment)],
        cerr := cerr w @ [Took name alignment (clock name alignment)]\<rparr>))"
proof -
  let ?p = "p + of_nat (align_steps p alignment)"
  let ?m = "std_fill (mem w) ?p (unat (gNumFloats g)) 0"
  have a: "align p alignment = Some ?p" by (rule align_value [OF assms(1)])
  have l: "run_loop (NullCopy (gNumFloats g) ?p ?p) (gTotalFloats g) (gNumFloats g) 0 ?m =
      Some (Inr ?m)"
    using run_loop_result [OF assms(2,3,4), of "NullCopy (gNumFloats g) ?p ?p" ?m]
    by (simp add: repeat_op_null_copy)
  have e: "?m = elems_set (mem w) ?p (unat (gNumFloats g)) (\<lambda>i. 0)"
    by (rule std_fill_elems_set) (use assms(5) in simp)
  have z: "elem ?m ?p j = 0" if "j < unat (gNumFloats g)" for j
    unfolding e by (rule elem_elems_set) (use that assms(5) in simp_all)
  show ?thesis
    by (rule copy_Run_passes [where f = NullCopy and d' = ?p and s' = ?p and m' = ?m])
       (simp_all add: a l z float_ne_zero_zero)
qed

lemma default_sizes:
  "unat (gNumFloats default_globals) = 16384"
  "unat (gTotalFloats default_globals) = 1075380224"
  "unat (gNumFloats default_globals + 0x100) = 16640"
  by (simp_all add: default_globals_def kDefaultNumFloats_def kDefaultTotalFloats_def)

lemma default_sizes_ok:
  "0 < gNumFloats default_globals" "gNumFloats default_globals \<le> gTotalFloats default_globals"
  by (simp_all add: default_globals_def kDefaultNumFloats_def kDefaultTotalFloats_def)

lemma copy_Run_null_default:
  "copy_Run default_globals clock NullCopy name 4 0x100000 0x100000 w =
     Some (Continue (w\<lparr>mem := std_fill (mem w) 0x100004 16384 0,
        cout := cout w @ [ColumnTime (clock name 4)],
        cerr := cerr w @ [Took name 4 (clock name 4)]\<rparr>))"
proof -
  have "align_steps 0x100000 4 = 4" by (simp add: align_steps_def)
  then show ?thesis
    using copy_Run_null_on_source [of 4 default_globals clock name "0x100000" w]
    by (simp add: default_sizes default_sizes_ok)
qed

text \<open>
  C3, on \<^verbatim>\<open>simd-copy.cpp\<close> at the first sweep offset, 4, which 16 does not divide. The row
  takes its two aligned-SSE columns from \<^verbatim>\<open>Run<NullCopy>\<close> on the source buffer, and that
  call, with the default tunables and the source vector at \<open>0x100000\<close>, goes through the
  whole executor: it zero-fills, runs the timed loop, passes the verification, reports
  to the error stream, and what it emits for the column is the timer's reading, not the
  constant 0. In \<^verbatim>\<open>simd-mult.cpp\<close> the same column comes from the specialisation
  \<^verbatim>\<open>Run<NullMult>\<close>, which prints the constant 0 and does nothing else.
\<close>

theorem copy_null_run_is_timed_and_verified:
  "(4::size_t) mod 16 \<noteq> 0 \<and>
   copy_row default_globals clock dest source 4 =
     run_all
       [say (RowStart 4),
        copy_Run default_globals clock MemCopy ''std::memcpy'' 4 dest source,
        copy_Run default_globals clock StdCopy ''std::copy'' 4 dest source,
        copy_Run default_globals clock SimpleCopy ''for-loop'' 4 dest source,
        copy_Run default_globals clock UnalignedSseCopy ''Unaligned Sse'' 4 dest source,
        copy_Run default_globals clock UnalignedAvxCopy ''Unaligned Avx'' 4 dest source,
        copy_Run default_globals clock NullCopy ''Aligned Sse'' 4 source source,
        copy_Run default_globals clock NullCopy ''Aligned Sse Stream'' 4 source source,
        copy_Run default_globals clock NullCopy ''Aligned Avx'' 4 source source,
        copy_Run default_globals clock NullCopy ''Aligned Avx Stream'' 4 source source] \<and>
   copy_Run default_globals clock NullCopy ''Aligned Sse'' 4 0x100000 0x100000 w =
     Some (Continue \<lparr>mem = std_fill (mem w) 0x100004 16384 0,
        cout = cout w @ [ColumnTime (clock ''Aligned Sse'' 4)],
        cerr = cerr w @ [Took ''Aligned Sse'' 4 (clock ''Aligned Sse'' 4)]\<rparr>) \<and>
   mult_row default_globals clock fmul dest source 4 =
     run_all
       [say (RowStart 4),
        mult_Run default_globals clock fmul NiaveMult ''for-loop'' 4 dest source (elem_addr source 256),
        mult_Run default_globals clock fmul UnalignedSseMult ''Unaligned Sse'' 4 dest source
          (elem_addr source 256),
        mult_Run default_globals clock fmul UnalignedAvxMult ''Unaligned Avx'' 4 dest source
          (elem_addr source 256),
        mult_Run_NullMult ''Aligned Sse'' 4 source source (elem_addr source 256),
        mult_Run_NullMult ''Aligned Sse Stream'' 4 source source (elem_addr source 256),
        mult_Run_NullMult ''Aligned Avx'' 4 source source (elem_addr source 256),
        mult_Run_NullMult ''Aligned Avx Stream'' 4 source source (elem_addr source 256)] \<and>
   mult_Run_NullMult ''Aligned Sse'' 4 source source (elem_addr source 256) w =
     Some (Continue \<lparr>mem = mem w, cout = cout w @ [ColumnZero], cerr = cerr w\<rparr>)"
proof -
  have m: "mult_row default_globals clock fmul dest source 4 =
     run_all
       [say (RowStart 4),
        mult_Run default_globals clock fmul NiaveMult ''for-loop'' 4 dest source (elem_addr source 256),
        mult_Run default_globals clock fmul UnalignedSseMult ''Unaligned Sse'' 4 dest source
          (elem_addr source 256),
        mult_Run default_globals clock fmul UnalignedAvxMult ''Unaligned Avx'' 4 dest source
          (elem_addr source 256),
        mult_Run_NullMult ''Aligned Sse'' 4 source source (elem_addr source 256),
        mult_Run_NullMult ''Aligned Sse Stream'' 4 source source (elem_addr source 256),
        mult_Run_NullMult ''Aligned Avx'' 4 source source (elem_addr source 256),
        mult_Run_NullMult ''Aligned Avx Stream'' 4 source source (elem_addr source 256)]"
    by (simp add: mult_row_def default_globals_def)
  have z: "mult_Run_NullMult ''Aligned Sse'' 4 source source (elem_addr source 256) w =
     Some (Continue \<lparr>mem = mem w, cout = cout w @ [ColumnZero], cerr = cerr w\<rparr>)"
    by (simp add: mult_Run_NullMult_def print_cout_def)
  have "copy_row default_globals clock dest source 4 =
     run_all
       [say (RowStart 4),
        copy_Run default_globals clock MemCopy ''std::memcpy'' 4 dest source,
        copy_Run default_globals clock StdCopy ''std::copy'' 4 dest source,
        copy_Run default_globals clock SimpleCopy ''for-loop'' 4 dest source,
        copy_Run default_globals clock UnalignedSseCopy ''Unaligned Sse'' 4 dest source,
        copy_Run default_globals clock UnalignedAvxCopy ''Unaligned Avx'' 4 dest source,
        copy_Run default_globals clock NullCopy ''Aligned Sse'' 4 source source,
        copy_Run default_globals clock NullCopy ''Aligned Sse Stream'' 4 source source,
        copy_Run default_globals clock NullCopy ''Aligned Avx'' 4 source source,
        copy_Run default_globals clock NullCopy ''Aligned Avx Stream'' 4 source source]"
    by (simp add: copy_row_def default_globals_def)
  then show ?thesis using m z by (simp add: copy_Run_null_default)
qed

text \<open>
  C6, on \<^verbatim>\<open>simd-copy.cpp\<close>. With the default tunables and the source vector at
  \<open>0x100000\<close>, element 1 of the source holds the check value 1.0 after allocation; the call
  \<^verbatim>\<open>Run<NullCopy>("Aligned Sse", 4, source.data(), source.data())\<close> of the first sweep
  row leaves 0 there, whatever the memory held before the call.
\<close>

theorem copy_null_run_zero_fills_the_source:
  "elem default_source_mem 0x100000 1 = gCheckValue default_globals \<and>
   gCheckValue default_globals = 0x3F800000 \<and>
   final_elem (copy_Run default_globals clock NullCopy ''Aligned Sse'' 4 0x100000 0x100000 w)
     0x100000 1 = Some 0"
proof -
  have "default_source_mem = elems_set zero_mem 0x100000 16640 (\<lambda>i. 0x3F800000)"
    unfolding default_source_mem_def default_sizes
    by (simp add: default_globals_def std_fill_elems_set)
  moreover have "elem (elems_set zero_mem 0x100000 16640 (\<lambda>i. 0x3F800000)) 0x100000 1 = 0x3F800000"
    by (rule elem_elems_set) simp_all
  ultimately have before: "elem default_source_mem 0x100000 1 = 0x3F800000"
    by simp
  have "std_fill (mem w) 0x100004 16384 0 = elems_set (mem w) 0x100004 16384 (\<lambda>i. 0)"
    by (rule std_fill_elems_set) simp
  moreover have "elem (elems_set (mem w) 0x100004 16384 (\<lambda>i. 0)) 0x100004 0 = 0"
    by (rule elem_elems_set) simp_all
  ultimately have "elem (std_fill (mem w) 0x100004 16384 0) 0x100004 0 = 0"
    by simp
  moreover have "elem (std_fill (mem w) 0x100004 16384 0) 0x100000 1 =
      elem (std_fill (mem w) 0x100004 16384 0) 0x100004 0"
    by (simp add: elem_def elem_addr_def)
  ultimately have after: "elem (std_fill (mem w) 0x100004 16384 0) 0x100000 1 = 0"
    by simp
  have c: "gCheckValue default_globals = 0x3F800000" by (simp add: default_globals_def)
  have "final_elem (copy_Run default_globals clock NullCopy ''Aligned Sse'' 4 0x100000 0x100000 w)
          0x100000 1 = Some 0"
    using after by (simp add: copy_Run_null_default)
  with before c show ?thesis by simp
qed

text \<open>
  C4, at the configuration error \<open>total_elements < num_elements\<close> (the default tunables
  with \<^verbatim>\<open>total-floats=1\<close>): both programs print the diagnostic and the usage text to the
  error stream and then end with exit code 0. The other error path of \<^verbatim>\<open>main\<close>, an
  option that does not parse, ends with exit code 1.
\<close>

theorem config_error_exits_with_code_0:
  "gTotalFloats (default_globals\<lparr>gTotalFloats := 1\<rparr>) < gNumFloats (default_globals\<lparr>gTotalFloats := 1\<rparr>) \<and>
   copy_main (Some (default_globals\<lparr>gTotalFloats := 1\<rparr>)) clock source dest w =
     Some (Halt (Exit 0) \<lparr>mem = mem w, cout = cout w, cerr = cerr w @ [ErrTotalFloats, Usage]\<rparr>) \<and>
   mult_main (Some (default_globals\<lparr>gTotalFloats := 1\<rparr>)) clock fmul source dest w =
     Some (Halt (Exit 0) \<lparr>mem = mem w, cout = cout w, cerr = cerr w @ [ErrTotalFloats, Usage]\<rparr>) \<and>
   copy_main None clock source dest w =
     Some (Halt (Exit 1) \<lparr>mem = mem w, cout = cout w, cerr = cerr w @ [Usage]\<rparr>) \<and>
   mult_main None clock fmul source dest w =
     Some (Halt (Exit 1) \<lparr>mem = mem w, cout = cout w, cerr = cerr w @ [ErrWhat, Usage]\<rparr>)"
  by (simp add: copy_main_def mult_main_def default_globals_def kDefaultNumFloats_def
        print_usage_def print_cerr_def)


end
